theory Spec2Isabelle
  imports Main
begin

section \<open>The repack command of umoci (cmd/umoci/repack.go)\<close>

text \<open>
  The function \<^verbatim>\<open>repack\<close> is a straight-line orchestration of calls into other packages
  (bundle metadata, the CAS engine, the image mutator, go-mtree, the layer generator).
  None of those packages is part of the file, so every such call is a field of an
  environment record: a function from the world before the call to the call's result and
  the world after it. The model threads the world through the calls in the order of the
  source and logs every call, with its arguments and its result, in a trace.
  The \<^verbatim>\<open>logrus\<close> debug and info lines have no effect on control flow and are left out.
  A call into another package is taken to return: a panic raised inside one is not
  modelled, the panics of repack's own type assertions are.
\<close>

subsection \<open>Errors, dynamic values, outcomes\<close>

text \<open>
  \<^verbatim>\<open>Error msg\<close> is any error value with that message (what a callee returned, or what
  \<^verbatim>\<open>fmt.Errorf\<close> built); \<^verbatim>\<open>Wrap err msg\<close> is \<^verbatim>\<open>errors.Wrap(err, msg)\<close>.
\<close>

datatype error = Error string | Wrap error string

text \<open>
  The values of \<^verbatim>\<open>ctx.App.Metadata\<close> have type \<^verbatim>\<open>interface{}\<close>: a string, or anything else
  (including a nil value stored under a key).
\<close>

datatype interface = StringVal string | OtherVal

record Context =
  Metadata :: "string \<rightharpoonup> interface"

text \<open>
  The type assertion \<^verbatim>\<open>v.(string)\<close>: it panics (here \<open>None\<close>) on a value that is not a
  string, and on the nil interface that a lookup of a missing key yields.
\<close>

definition type_assert_string :: "interface option \<Rightarrow> string option" where
  "type_assert_string v = (case v of Some (StringVal s) \<Rightarrow> Some s | _ \<Rightarrow> None)"

text \<open>What a call of \<^verbatim>\<open>repack\<close> does: it returns an error value (nil is \<open>None\<close>), or it panics.\<close>

datatype outcome = Returns "error option" | Panics

subsection \<open>Data of the other packages\<close>

text \<open>
  Modelled from the spec: the type declarations of the descriptor, the bundle metadata and
  the map options are missing from the source file. Descriptor: media type, digest, size.
  Bundle metadata: schema version, the descriptor the bundle was unpacked from, the map
  options (uid and gid mappings and the rootless flag). An id mapping is a triple
  (host id, container id, size).
\<close>

record Descriptor =
  MediaType :: string
  Digest :: string
  Size :: int

type_synonym IDMapping = "nat \<times> nat \<times> nat"

record MapOptions =
  UIDMappings :: "IDMapping list"
  GIDMappings :: "IDMapping list"
  Rootless :: bool

record UmociMeta =
  Version :: string
  From :: Descriptor
  MapOptions :: MapOptions

text \<open>
  Modelled from the spec: the image metadata that \<^verbatim>\<open>mutator.Meta\<close> returns; only its
  author is read. The history record has the five fields the source fills in.
\<close>

record Meta =
  Author :: string

record History =
  Author :: string
  Comment :: string
  Created :: string
  CreatedBy :: string
  EmptyLayer :: bool

text \<open>
  Modelled from the spec: a diff entry is a path with its classification. The two
  filesystem evaluators are the globals \<^verbatim>\<open>umoci.DefaultFsEval\<close> and \<^verbatim>\<open>umoci.RootlessFsEval\<close>.
\<close>

datatype DifferenceType = Missing | Extra | Modified

type_synonym InodeDelta = "DifferenceType \<times> string"

datatype FsEval = DefaultFsEval | RootlessFsEval

text \<open>Handles to objects that live in the world, and clock readings.\<close>

datatype Engine = Engine nat
datatype Mutator = Mutator nat
datatype File = File nat
datatype DirectoryHierarchy = DirectoryHierarchy nat
datatype Reader = Reader nat
datatype Time = Time nat

text \<open>The constant \<^verbatim>\<open>ispec.MediaTypeImageManifest\<close> of the OCI image specification.\<close>

definition MediaTypeImageManifest :: string where
  "MediaTypeImageManifest = ''application/vnd.oci.image.manifest.v1+json''"

subsection \<open>The environment: every call that leaves the file\<close>

record 'w env =
  ReadBundleMeta :: "string \<Rightarrow> 'w \<Rightarrow> (error + UmociMeta) \<times> 'w"
  cas_Open :: "string \<Rightarrow> 'w \<Rightarrow> (error + Engine) \<times> 'w"
  engine_Close :: "Engine \<Rightarrow> 'w \<Rightarrow> error option \<times> 'w"
  mutate_New :: "Engine \<Rightarrow> Descriptor \<Rightarrow> 'w \<Rightarrow> (error + Mutator) \<times> 'w"
  filepath_Join :: "string \<Rightarrow> string \<Rightarrow> string"
  layer_RootfsName :: string
  os_Open :: "string \<Rightarrow> 'w \<Rightarrow> (error + File) \<times> 'w"
  file_Close :: "File \<Rightarrow> 'w \<Rightarrow> error option \<times> 'w"
  mtree_ParseSpec :: "File \<Rightarrow> 'w \<Rightarrow> (error + DirectoryHierarchy) \<times> 'w"
  MtreeKeywords :: "string list"
  mtree_Check :: "string \<Rightarrow> DirectoryHierarchy \<Rightarrow> string list \<Rightarrow> FsEval \<Rightarrow> 'w
                    \<Rightarrow> (error + InodeDelta list) \<times> 'w"
  layer_GenerateLayer :: "string \<Rightarrow> InodeDelta list \<Rightarrow> MapOptions \<Rightarrow> 'w
                    \<Rightarrow> (error + Reader) \<times> 'w"
  reader_Close :: "Reader \<Rightarrow> 'w \<Rightarrow> error option \<times> 'w"
  mutator_Meta :: "Mutator \<Rightarrow> 'w \<Rightarrow> (error + Meta) \<times> 'w"
  time_Now :: "'w \<Rightarrow> Time \<times> 'w"
  time_Format_ISO8601 :: "Time \<Rightarrow> string"
  mutator_Add :: "Mutator \<Rightarrow> Reader \<Rightarrow> History \<Rightarrow> 'w \<Rightarrow> error option \<times> 'w"
  mutator_Commit :: "Mutator \<Rightarrow> 'w \<Rightarrow> (error + Descriptor) \<times> 'w"
  engine_DeleteReference :: "Engine \<Rightarrow> string \<Rightarrow> 'w \<Rightarrow> error option \<times> 'w"
  engine_PutReference :: "Engine \<Rightarrow> string \<Rightarrow> Descriptor \<Rightarrow> 'w \<Rightarrow> error option \<times> 'w"

text \<open>One entry of the trace per call: the arguments, then the result.\<close>

datatype event =
    Call_ReadBundleMeta string "error + UmociMeta"
  | Call_cas_Open string "error + Engine"
  | Call_mutate_New Engine Descriptor "error + Mutator"
  | Call_os_Open string "error + File"
  | Call_mtree_ParseSpec File "error + DirectoryHierarchy"
  | Call_mtree_Check string DirectoryHierarchy "string list" FsEval "error + InodeDelta list"
  | Call_layer_GenerateLayer string "InodeDelta list" MapOptions "error + Reader"
  | Call_mutator_Meta Mutator "error + Meta"
  | Call_time_Now Time
  | Call_mutator_Add Mutator Reader History "error option"
  | Call_mutator_Commit Mutator "error + Descriptor"
  | Call_engine_DeleteReference Engine string "error option"
  | Call_engine_PutReference Engine string Descriptor "error option"
  | Call_reader_Close Reader "error option"
  | Call_file_Close File "error option"
  | Call_engine_Close Engine "error option"

type_synonym 'w state = "event list \<times> 'w"

text \<open>Making a call: run it on the world, log it with its result.\<close>

definition call :: "('r \<Rightarrow> event) \<Rightarrow> ('w \<Rightarrow> 'r \<times> 'w) \<Rightarrow> 'w state \<Rightarrow> 'r \<times> 'w state" where
  "call ev f s = (case f (snd s) of (r, w') \<Rightarrow> (r, fst s @ [ev r], w'))"

subsection \<open>Pure parts of repack\<close>

text \<open>
  \<^verbatim>\<open>strings.Replace(s, old, new, 1)\<close> for a non-empty \<^verbatim>\<open>old\<close>: the first occurrence of
  \<^verbatim>\<open>old\<close> in \<^verbatim>\<open>s\<close>, scanning from the left, is replaced by \<^verbatim>\<open>new\<close>; a string without
  an occurrence is returned as it is.
\<close>

fun strings_Replace1 :: "string \<Rightarrow> string \<Rightarrow> string \<Rightarrow> string" where
  "strings_Replace1 [] old new = (if old = [] then new else [])"
| "strings_Replace1 (c # cs) old new =
     (if take (length old) (c # cs) = old then new @ drop (length old) (c # cs)
      else c # strings_Replace1 cs old new)"

text \<open>Line 100: the error that \<^verbatim>\<open>fmt.Errorf\<close> builds for a base that is not a manifest.\<close>

definition not_implemented :: "string \<Rightarrow> error" where
  "not_implemented mediaType =
     Error (''descriptor does not point to ispec.MediaTypeImageManifest: not implemented: ''
            @ mediaType)"

text \<open>Lines 116 to 118: the names of the snapshot file and of the root filesystem.\<close>

definition mtreeName :: "UmociMeta \<Rightarrow> string" where
  "mtreeName meta = strings_Replace1 (Digest (From meta)) ''sha256:'' ''sha256_''"

definition mtreePath :: "'w env \<Rightarrow> string \<Rightarrow> UmociMeta \<Rightarrow> string" where
  "mtreePath env bundlePath meta = filepath_Join env bundlePath (mtreeName meta @ ''.mtree'')"

definition fullRootfsPath :: "'w env \<Rightarrow> string \<Rightarrow> string" where
  "fullRootfsPath env bundlePath = filepath_Join env bundlePath (layer_RootfsName env)"

text \<open>
  Lines 175 to 186: one override. \<^verbatim>\<open>if val, ok := ctx.App.Metadata[key]; ok { field = val.(string) }\<close>:
  a missing key leaves the record alone, a string is stored, anything else panics.
\<close>

definition override :: "Context \<Rightarrow> string \<Rightarrow> (string \<Rightarrow> History \<Rightarrow> History) \<Rightarrow> History
                        \<Rightarrow> History option" where
  "override ctx key store history =
     (case Metadata ctx key of
        None \<Rightarrow> Some history
      | Some val \<Rightarrow>
          (case type_assert_string (Some val) of
             None \<Rightarrow> None
           | Some s \<Rightarrow> Some (store s history)))"

definition history_overrides :: "Context \<Rightarrow> History \<Rightarrow> History option" where
  "history_overrides ctx history =
     (case override ctx ''--history.author'' (\<lambda>v h. h\<lparr>History.Author := v\<rparr>) history of
        None \<Rightarrow> None
      | Some h1 \<Rightarrow>
     (case override ctx ''--history.comment'' (\<lambda>v h. h\<lparr>Comment := v\<rparr>) h1 of
        None \<Rightarrow> None
      | Some h2 \<Rightarrow>
     (case override ctx ''--history.created'' (\<lambda>v h. h\<lparr>Created := v\<rparr>) h2 of
        None \<Rightarrow> None
      | Some h3 \<Rightarrow>
          override ctx ''--history.created_by'' (\<lambda>v h. h\<lparr>CreatedBy := v\<rparr>) h3)))"

text \<open>Lines 167 to 173: the history record before the overrides.\<close>

definition history_literal :: "'w env \<Rightarrow> Meta \<Rightarrow> Time \<Rightarrow> History" where
  "history_literal env imageMeta now =
     \<lparr>History.Author = Meta.Author imageMeta,
      Comment = '''',
      Created = time_Format_ISO8601 env now,
      CreatedBy = ''umoci config'',
      EmptyLayer = False\<rparr>"

subsection \<open>repack\<close>

text \<open>
  A deferred call runs when the function returns or panics, after everything that follows
  the \<^verbatim>\<open>defer\<close> statement; the last deferred runs first. So the body after each
  \<^verbatim>\<open>defer\<close> is a function of its own, and the deferred \<^verbatim>\<open>Close\<close> (whose error is dropped)
  is called on whatever that function did.

  Lines 162 to 215, after \<^verbatim>\<open>defer reader.Close()\<close>.
\<close>

definition repack_after_defer_reader ::
  "'w env \<Rightarrow> Context \<Rightarrow> string \<Rightarrow> Engine \<Rightarrow> Mutator \<Rightarrow> Reader \<Rightarrow> 'w state
     \<Rightarrow> outcome \<times> 'w state" where
  "repack_after_defer_reader env ctx tagName engine mutator reader s0 =
     (case call (Call_mutator_Meta mutator) (mutator_Meta env mutator) s0 of
        (Inl err, s1) \<Rightarrow> (Returns (Some (Wrap err ''get image metadata'')), s1)
      | (Inr imageMeta, s1) \<Rightarrow>
     (case call Call_time_Now (time_Now env) s1 of (now, s2) \<Rightarrow>
     (case history_overrides ctx (history_literal env imageMeta now) of
        None \<Rightarrow> (Panics, s2)
      | Some history \<Rightarrow>
     (case call (Call_mutator_Add mutator reader history)
                (mutator_Add env mutator reader history) s2 of
        (Some err, s3) \<Rightarrow> (Returns (Some (Wrap err ''add diff layer'')), s3)
      | (None, s3) \<Rightarrow>
     (case call (Call_mutator_Commit mutator) (mutator_Commit env mutator) s3 of
        (Inl err, s4) \<Rightarrow> (Returns (Some (Wrap err ''commit mutated image'')), s4)
      | (Inr newDescriptor, s4) \<Rightarrow>
     (case call (Call_engine_DeleteReference engine tagName)
                (engine_DeleteReference env engine tagName) s4 of
        (Some err, s5) \<Rightarrow> (Returns (Some err), s5)
      | (None, s5) \<Rightarrow>
     (case call (Call_engine_PutReference engine tagName newDescriptor)
                (engine_PutReference env engine tagName newDescriptor) s5 of
        (Some err, s6) \<Rightarrow> (Returns (Some err), s6)
      | (None, s6) \<Rightarrow> (Returns None, s6))))))))"

text \<open>Lines 133 to 160, after \<^verbatim>\<open>defer mfh.Close()\<close>.\<close>

definition repack_after_defer_mfh ::
  "'w env \<Rightarrow> Context \<Rightarrow> string \<Rightarrow> string \<Rightarrow> UmociMeta \<Rightarrow> Engine \<Rightarrow> Mutator \<Rightarrow> File
     \<Rightarrow> 'w state \<Rightarrow> outcome \<times> 'w state" where
  "repack_after_defer_mfh env ctx tagName bundlePath meta engine mutator mfh s0 =
     (case call (Call_mtree_ParseSpec mfh) (mtree_ParseSpec env mfh) s0 of
        (Inl err, s1) \<Rightarrow> (Returns (Some (Wrap err ''parse mtree'')), s1)
      | (Inr spec, s1) \<Rightarrow>
     (let fsEval = (if Rootless (MapOptions meta) then RootlessFsEval else DefaultFsEval) in
     (case call (Call_mtree_Check (fullRootfsPath env bundlePath) spec (MtreeKeywords env) fsEval)
                (mtree_Check env (fullRootfsPath env bundlePath) spec (MtreeKeywords env) fsEval)
                s1 of
        (Inl err, s2) \<Rightarrow> (Returns (Some (Wrap err ''check mtree'')), s2)
      | (Inr diffs, s2) \<Rightarrow>
     (case call (Call_layer_GenerateLayer (fullRootfsPath env bundlePath) diffs (MapOptions meta))
                (layer_GenerateLayer env (fullRootfsPath env bundlePath) diffs (MapOptions meta))
                s2 of
        (Inl err, s3) \<Rightarrow> (Returns (Some (Wrap err ''generate diff layer'')), s3)
      | (Inr reader, s3) \<Rightarrow>
     (case repack_after_defer_reader env ctx tagName engine mutator reader s3 of
        (out, s4) \<Rightarrow>
     (case call (Call_reader_Close reader) (reader_Close env reader) s4 of
        (_, s5) \<Rightarrow> (out, s5)))))))"

text \<open>Lines 110 to 131, after \<^verbatim>\<open>defer engine.Close()\<close>.\<close>

definition repack_after_defer_engine ::
  "'w env \<Rightarrow> Context \<Rightarrow> string \<Rightarrow> string \<Rightarrow> UmociMeta \<Rightarrow> Engine \<Rightarrow> 'w state
     \<Rightarrow> outcome \<times> 'w state" where
  "repack_after_defer_engine env ctx tagName bundlePath meta engine s0 =
     (case call (Call_mutate_New engine (From meta)) (mutate_New env engine (From meta)) s0 of
        (Inl err, s1) \<Rightarrow> (Returns (Some (Wrap err ''create mutator for base image'')), s1)
      | (Inr mutator, s1) \<Rightarrow>
     (case call (Call_os_Open (mtreePath env bundlePath meta))
                (os_Open env (mtreePath env bundlePath meta)) s1 of
        (Inl err, s2) \<Rightarrow> (Returns (Some (Wrap err ''open mtree'')), s2)
      | (Inr mfh, s2) \<Rightarrow>
     (case repack_after_defer_mfh env ctx tagName bundlePath meta engine mutator mfh s2 of
        (out, s3) \<Rightarrow>
     (case call (Call_file_Close mfh) (file_Close env mfh) s3 of
        (_, s4) \<Rightarrow> (out, s4)))))"

text \<open>Lines 81 to 108, and the whole function: the outcome, the trace and the final world.\<close>

definition repack :: "'w env \<Rightarrow> Context \<Rightarrow> 'w \<Rightarrow> outcome \<times> 'w state" where
  "repack env ctx w =
     (case type_assert_string (Metadata ctx ''--image-path'') of
        None \<Rightarrow> (Panics, [], w)
      | Some imagePath \<Rightarrow>
     (case type_assert_string (Metadata ctx ''--image-tag'') of
        None \<Rightarrow> (Panics, [], w)
      | Some tagName \<Rightarrow>
     (case type_assert_string (Metadata ctx ''bundle'') of
        None \<Rightarrow> (Panics, [], w)
      | Some bundlePath \<Rightarrow>
     (case call (Call_ReadBundleMeta bundlePath) (ReadBundleMeta env bundlePath) ([], w) of
        (Inl err, s1) \<Rightarrow> (Returns (Some (Wrap err ''read umoci.json metadata'')), s1)
      | (Inr meta, s1) \<Rightarrow>
     (if MediaType (From meta) \<noteq> MediaTypeImageManifest then
        (Returns (Some (Wrap
           (not_implemented (MediaType (From meta))) ''invalid saved from descriptor'')), s1)
      else
     (case call (Call_cas_Open imagePath) (cas_Open env imagePath) s1 of
        (Inl err, s2) \<Rightarrow> (Returns (Some (Wrap err ''open CAS'')), s2)
      | (Inr engine, s2) \<Rightarrow>
     (case repack_after_defer_engine env ctx tagName bundlePath meta engine s2 of
        (out, s3) \<Rightarrow>
     (case call (Call_engine_Close engine) (engine_Close env engine) s3 of
        (_, s4) \<Rightarrow> (out, s4)))))))))"

section \<open>Reading the trace\<close>

subsection \<open>Kinds of calls\<close>

text \<open>The two calls that change the tag reference.\<close>

fun is_reference_op :: "event \<Rightarrow> bool" where
  "is_reference_op (Call_engine_DeleteReference _ _ _) = True"
| "is_reference_op (Call_engine_PutReference _ _ _ _) = True"
| "is_reference_op _ = False"

text \<open>The deferred calls.\<close>

fun is_Close :: "event \<Rightarrow> bool" where
  "is_Close (Call_reader_Close _ _) = True"
| "is_Close (Call_file_Close _ _) = True"
| "is_Close (Call_engine_Close _ _) = True"
| "is_Close _ = False"

fun is_GenerateLayer :: "event \<Rightarrow> bool" where
  "is_GenerateLayer (Call_layer_GenerateLayer _ _ _ _) = True"
| "is_GenerateLayer _ = False"

fun is_Add :: "event \<Rightarrow> bool" where
  "is_Add (Call_mutator_Add _ _ _ _) = True"
| "is_Add _ = False"

fun is_Commit :: "event \<Rightarrow> bool" where
  "is_Commit (Call_mutator_Commit _ _) = True"
| "is_Commit _ = False"

text \<open>
  A stage up to and including \<^verbatim>\<open>Mutator.Commit\<close> failed: one of the ten fallible calls
  before the reference swap returned an error, or the metadata that was read does not
  pass the media type check of line 99.
\<close>

fun stage_failed :: "event \<Rightarrow> bool" where
  "stage_failed (Call_ReadBundleMeta _ r) =
     (case r of Inl _ \<Rightarrow> True | Inr meta \<Rightarrow> MediaType (From meta) \<noteq> MediaTypeImageManifest)"
| "stage_failed (Call_cas_Open _ r) = isl r"
| "stage_failed (Call_mutate_New _ _ r) = isl r"
| "stage_failed (Call_os_Open _ r) = isl r"
| "stage_failed (Call_mtree_ParseSpec _ r) = isl r"
| "stage_failed (Call_mtree_Check _ _ _ _ r) = isl r"
| "stage_failed (Call_layer_GenerateLayer _ _ _ r) = isl r"
| "stage_failed (Call_mutator_Meta _ r) = isl r"
| "stage_failed (Call_mutator_Add _ _ _ r) = (r \<noteq> None)"
| "stage_failed (Call_mutator_Commit _ r) = isl r"
| "stage_failed _ = False"

text \<open>The call returned no error (a deferred \<^verbatim>\<open>Close\<close> and the clock cannot stop repack).\<close>

fun succeeded :: "event \<Rightarrow> bool" where
  "succeeded (Call_ReadBundleMeta _ r) = (\<not> isl r)"
| "succeeded (Call_cas_Open _ r) = (\<not> isl r)"
| "succeeded (Call_mutate_New _ _ r) = (\<not> isl r)"
| "succeeded (Call_os_Open _ r) = (\<not> isl r)"
| "succeeded (Call_mtree_ParseSpec _ r) = (\<not> isl r)"
| "succeeded (Call_mtree_Check _ _ _ _ r) = (\<not> isl r)"
| "succeeded (Call_layer_GenerateLayer _ _ _ r) = (\<not> isl r)"
| "succeeded (Call_mutator_Meta _ r) = (\<not> isl r)"
| "succeeded (Call_time_Now _) = True"
| "succeeded (Call_mutator_Add _ _ _ r) = (r = None)"
| "succeeded (Call_mutator_Commit _ r) = (\<not> isl r)"
| "succeeded (Call_engine_DeleteReference _ _ r) = (r = None)"
| "succeeded (Call_engine_PutReference _ _ _ r) = (r = None)"
| "succeeded (Call_reader_Close _ _) = True"
| "succeeded (Call_file_Close _ _) = True"
| "succeeded (Call_engine_Close _ _) = True"

text \<open>The position of a call in the text of repack, the deferred calls last.\<close>

fun position :: "event \<Rightarrow> nat" where
  "position (Call_ReadBundleMeta _ _) = 0"
| "position (Call_cas_Open _ _) = 1"
| "position (Call_mutate_New _ _ _) = 2"
| "position (Call_os_Open _ _) = 3"
| "position (Call_mtree_ParseSpec _ _) = 4"
| "position (Call_mtree_Check _ _ _ _ _) = 5"
| "position (Call_layer_GenerateLayer _ _ _ _) = 6"
| "position (Call_mutator_Meta _ _) = 7"
| "position (Call_time_Now _) = 8"
| "position (Call_mutator_Add _ _ _ _) = 9"
| "position (Call_mutator_Commit _ _) = 10"
| "position (Call_engine_DeleteReference _ _ _) = 11"
| "position (Call_engine_PutReference _ _ _ _) = 12"
| "position (Call_reader_Close _ _) = 13"
| "position (Call_file_Close _ _) = 14"
| "position (Call_engine_Close _ _) = 15"

text \<open>The resources: what a successful call opened, what a deferred call closed.\<close>

datatype resource = The_engine Engine | The_file File | The_reader Reader

fun opened :: "event \<Rightarrow> resource option" where
  "opened (Call_cas_Open _ (Inr engine)) = Some (The_engine engine)"
| "opened (Call_os_Open _ (Inr mfh)) = Some (The_file mfh)"
| "opened (Call_layer_GenerateLayer _ _ _ (Inr reader)) = Some (The_reader reader)"
| "opened _ = None"

fun closed :: "event \<Rightarrow> resource option" where
  "closed (Call_engine_Close engine _) = Some (The_engine engine)"
| "closed (Call_file_Close mfh _) = Some (The_file mfh)"
| "closed (Call_reader_Close reader _) = Some (The_reader reader)"
| "closed _ = None"

subsection \<open>The trace as a log of the world\<close>

text \<open>
  Replaying a trace: each entry names a call and its arguments; the call is made again on
  the world, it must answer what the entry recorded, and the world it leaves is passed on.
\<close>

definition answered :: "'r \<times> 'w \<Rightarrow> 'r \<Rightarrow> 'w option" where
  "answered rw r = (if fst rw = r then Some (snd rw) else None)"

fun step :: "'w env \<Rightarrow> event \<Rightarrow> 'w \<Rightarrow> 'w option" where
  "step env (Call_ReadBundleMeta bundlePath r) w = answered (ReadBundleMeta env bundlePath w) r"
| "step env (Call_cas_Open imagePath r) w = answered (cas_Open env imagePath w) r"
| "step env (Call_mutate_New engine from r) w = answered (mutate_New env engine from w) r"
| "step env (Call_os_Open path r) w = answered (os_Open env path w) r"
| "step env (Call_mtree_ParseSpec mfh r) w = answered (mtree_ParseSpec env mfh w) r"
| "step env (Call_mtree_Check root spec keywords fsEval r) w =
     answered (mtree_Check env root spec keywords fsEval w) r"
| "step env (Call_layer_GenerateLayer root diffs mapOptions r) w =
     answered (layer_GenerateLayer env root diffs mapOptions w) r"
| "step env (Call_mutator_Meta mutator r) w = answered (mutator_Meta env mutator w) r"
| "step env (Call_time_Now r) w = answered (time_Now env w) r"
| "step env (Call_mutator_Add mutator reader history r) w =
     answered (mutator_Add env mutator reader history w) r"
| "step env (Call_mutator_Commit mutator r) w = answered (mutator_Commit env mutator w) r"
| "step env (Call_engine_DeleteReference engine tagName r) w =
     answered (engine_DeleteReference env engine tagName w) r"
| "step env (Call_engine_PutReference engine tagName descriptor r) w =
     answered (engine_PutReference env engine tagName descriptor w) r"
| "step env (Call_reader_Close reader r) w = answered (reader_Close env reader w) r"
| "step env (Call_file_Close mfh r) w = answered (file_Close env mfh w) r"
| "step env (Call_engine_Close engine r) w = answered (engine_Close env engine w) r"

fun replay :: "'w env \<Rightarrow> event list \<Rightarrow> 'w \<Rightarrow> 'w option" where
  "replay env [] w = Some w"
| "replay env (e # es) w = (case step env e w of None \<Rightarrow> None | Some w1 \<Rightarrow> replay env es w1)"

text \<open>
  A call leaves an observation of the world alone: whatever the world it is made on and
  whatever it answers, the observation is the same before and after.
\<close>

definition leaves :: "'w env \<Rightarrow> ('w \<Rightarrow> 'a) \<Rightarrow> event \<Rightarrow> bool" where
  "leaves env obs e = (\<forall>w w1. step env e w = Some w1 \<longrightarrow> obs w1 = obs w)"

section \<open>The shapes of a run\<close>

text \<open>
  What repack can return and log, path by path, read off the definitions above; the lemmas
  \<open>reader_runs\<close> to \<open>repack_runs\<close> below prove that every run has one of these shapes.
  The traces are those of the calls after each \<^verbatim>\<open>defer\<close>, the deferred call included
  from the second predicate on.
\<close>

inductive reader_shape ::
  "'w env \<Rightarrow> Context \<Rightarrow> string \<Rightarrow> Engine \<Rightarrow> Mutator \<Rightarrow> Reader \<Rightarrow> outcome \<Rightarrow> event list \<Rightarrow> bool"
  for env ctx tagName engine mutator reader where
  Meta_fails:
    "reader_shape env ctx tagName engine mutator reader
       (Returns (Some (Wrap err ''get image metadata'')))
       [Call_mutator_Meta mutator (Inl err)]"
| Override_panics:
    "history_overrides ctx (history_literal env imageMeta now) = None \<Longrightarrow>
     reader_shape env ctx tagName engine mutator reader Panics
       [Call_mutator_Meta mutator (Inr imageMeta), Call_time_Now now]"
| Add_fails:
    "history_overrides ctx (history_literal env imageMeta now) = Some history \<Longrightarrow>
     reader_shape env ctx tagName engine mutator reader
       (Returns (Some (Wrap err ''add diff layer'')))
       [Call_mutator_Meta mutator (Inr imageMeta), Call_time_Now now,
        Call_mutator_Add mutator reader history (Some err)]"
| Commit_fails:
    "history_overrides ctx (history_literal env imageMeta now) = Some history \<Longrightarrow>
     reader_shape env ctx tagName engine mutator reader
       (Returns (Some (Wrap err ''commit mutated image'')))
       [Call_mutator_Meta mutator (Inr imageMeta), Call_time_Now now,
        Call_mutator_Add mutator reader history None,
        Call_mutator_Commit mutator (Inl err)]"
| Delete_fails:
    "history_overrides ctx (history_literal env imageMeta now) = Some history \<Longrightarrow>
     reader_shape env ctx tagName engine mutator reader
       (Returns (Some err))
       [Call_mutator_Meta mutator (Inr imageMeta), Call_time_Now now,
        Call_mutator_Add mutator reader history None,
        Call_mutator_Commit mutator (Inr newDescriptor),
        Call_engine_DeleteReference engine tagName (Some err)]"
| Put_fails:
    "history_overrides ctx (history_literal env imageMeta now) = Some history \<Longrightarrow>
     reader_shape env ctx tagName engine mutator reader
       (Returns (Some err))
       [Call_mutator_Meta mutator (Inr imageMeta), Call_time_Now now,
        Call_mutator_Add mutator reader history None,
        Call_mutator_Commit mutator (Inr newDescriptor),
        Call_engine_DeleteReference engine tagName None,
        Call_engine_PutReference engine tagName newDescriptor (Some err)]"
| Swapped:
    "history_overrides ctx (history_literal env imageMeta now) = Some history \<Longrightarrow>
     reader_shape env ctx tagName engine mutator reader
       (Returns None)
       [Call_mutator_Meta mutator (Inr imageMeta), Call_time_Now now,
        Call_mutator_Add mutator reader history None,
        Call_mutator_Commit mutator (Inr newDescriptor),
        Call_engine_DeleteReference engine tagName None,
        Call_engine_PutReference engine tagName newDescriptor None]"

inductive mfh_shape ::
  "'w env \<Rightarrow> Context \<Rightarrow> string \<Rightarrow> string \<Rightarrow> UmociMeta \<Rightarrow> Engine \<Rightarrow> Mutator \<Rightarrow> File
     \<Rightarrow> outcome \<Rightarrow> event list \<Rightarrow> bool"
  for env ctx tagName bundlePath meta engine mutator mfh where
  ParseSpec_fails:
    "mfh_shape env ctx tagName bundlePath meta engine mutator mfh
       (Returns (Some (Wrap err ''parse mtree'')))
       [Call_mtree_ParseSpec mfh (Inl err)]"
| Check_fails:
    "mfh_shape env ctx tagName bundlePath meta engine mutator mfh
       (Returns (Some (Wrap err ''check mtree'')))
       [Call_mtree_ParseSpec mfh (Inr spec),
        Call_mtree_Check (fullRootfsPath env bundlePath) spec (MtreeKeywords env)
          (if Rootless (MapOptions meta) then RootlessFsEval else DefaultFsEval) (Inl err)]"
| GenerateLayer_fails:
    "mfh_shape env ctx tagName bundlePath meta engine mutator mfh
       (Returns (Some (Wrap err ''generate diff layer'')))
       [Call_mtree_ParseSpec mfh (Inr spec),
        Call_mtree_Check (fullRootfsPath env bundlePath) spec (MtreeKeywords env)
          (if Rootless (MapOptions meta) then RootlessFsEval else DefaultFsEval) (Inr diffs),
        Call_layer_GenerateLayer (fullRootfsPath env bundlePath) diffs (MapOptions meta) (Inl err)]"
| Generated:
    "reader_shape env ctx tagName engine mutator reader out tr \<Longrightarrow>
     mfh_shape env ctx tagName bundlePath meta engine mutator mfh out
       (Call_mtree_ParseSpec mfh (Inr spec)
        # Call_mtree_Check (fullRootfsPath env bundlePath) spec (MtreeKeywords env)
            (if Rootless (MapOptions meta) then RootlessFsEval else DefaultFsEval) (Inr diffs)
        # Call_layer_GenerateLayer (fullRootfsPath env bundlePath) diffs (MapOptions meta)
            (Inr reader)
        # tr @ [Call_reader_Close reader r])"

inductive engine_shape ::
  "'w env \<Rightarrow> Context \<Rightarrow> string \<Rightarrow> string \<Rightarrow> UmociMeta \<Rightarrow> Engine \<Rightarrow> outcome \<Rightarrow> event list \<Rightarrow> bool"
  for env ctx tagName bundlePath meta engine where
  New_fails:
    "engine_shape env ctx tagName bundlePath meta engine
       (Returns (Some (Wrap err ''create mutator for base image'')))
       [Call_mutate_New engine (From meta) (Inl err)]"
| os_Open_fails:
    "engine_shape env ctx tagName bundlePath meta engine
       (Returns (Some (Wrap err ''open mtree'')))
       [Call_mutate_New engine (From meta) (Inr mutator),
        Call_os_Open (mtreePath env bundlePath meta) (Inl err)]"
| Opened:
    "mfh_shape env ctx tagName bundlePath meta engine mutator mfh out tr \<Longrightarrow>
     engine_shape env ctx tagName bundlePath meta engine out
       (Call_mutate_New engine (From meta) (Inr mutator)
        # Call_os_Open (mtreePath env bundlePath meta) (Inr mfh)
        # tr @ [Call_file_Close mfh r])"

inductive repack_shape :: "'w env \<Rightarrow> Context \<Rightarrow> outcome \<Rightarrow> event list \<Rightarrow> bool"
  for env ctx where
  Assertion_panics:
    "type_assert_string (Metadata ctx ''--image-path'') = None
       \<or> type_assert_string (Metadata ctx ''--image-tag'') = None
       \<or> type_assert_string (Metadata ctx ''bundle'') = None \<Longrightarrow>
     repack_shape env ctx Panics []"
| ReadBundleMeta_fails:
    "type_assert_string (Metadata ctx ''bundle'') = Some bundlePath \<Longrightarrow>
     repack_shape env ctx
       (Returns (Some (Wrap err ''read umoci.json metadata'')))
       [Call_ReadBundleMeta bundlePath (Inl err)]"
| Not_a_manifest:
    "type_assert_string (Metadata ctx ''bundle'') = Some bundlePath \<Longrightarrow>
     MediaType (From meta) \<noteq> MediaTypeImageManifest \<Longrightarrow>
     repack_shape env ctx
       (Returns (Some (Wrap (not_implemented (MediaType (From meta)))
                         ''invalid saved from descriptor'')))
       [Call_ReadBundleMeta bundlePath (Inr meta)]"
| cas_Open_fails:
    "type_assert_string (Metadata ctx ''--image-path'') = Some imagePath \<Longrightarrow>
     type_assert_string (Metadata ctx ''bundle'') = Some bundlePath \<Longrightarrow>
     MediaType (From meta) = MediaTypeImageManifest \<Longrightarrow>
     repack_shape env ctx
       (Returns (Some (Wrap err ''open CAS'')))
       [Call_ReadBundleMeta bundlePath (Inr meta), Call_cas_Open imagePath (Inl err)]"
| Engine_opened:
    "type_assert_string (Metadata ctx ''--image-path'') = Some imagePath \<Longrightarrow>
     type_assert_string (Metadata ctx ''--image-tag'') = Some tagName \<Longrightarrow>
     type_assert_string (Metadata ctx ''bundle'') = Some bundlePath \<Longrightarrow>
     MediaType (From meta) = MediaTypeImageManifest \<Longrightarrow>
     engine_shape env ctx tagName bundlePath meta engine out tr \<Longrightarrow>
     repack_shape env ctx out
       (Call_ReadBundleMeta bundlePath (Inr meta)
        # Call_cas_Open imagePath (Inr engine)
        # tr @ [Call_engine_Close engine r])"

section \<open>A concrete world for the examples\<close>

text \<open>
  Modelled from the spec: the packages behind the environment are missing, so the examples
  run repack on a small store that follows section 6 of the specification: tag references
  (a name bound to a Descriptor, or absent), the digests of the blobs present, and the
  layers appended to the image being mutated, each with its history record. \<^verbatim>\<open>deleteReference\<close> unbinds the
  name, \<^verbatim>\<open>putReference\<close> binds it, \<^verbatim>\<open>Add\<close> appends the layer and its history record, \<^verbatim>\<open>Commit\<close> stores
  the new manifest; a call that fails changes nothing. The parameter \<open>fail\<close> chooses the
  call that fails (1 to 12 in the order of the source, anything else for none).
\<close>

record store =
  refs :: "string \<rightharpoonup> Descriptor"
  blobs :: "string list"
  appended :: "(Reader \<times> History) list"

definition demo_error :: error where
  "demo_error = Error ''input/output error''"

definition demo_new :: Descriptor where
  "demo_new = \<lparr>MediaType = MediaTypeImageManifest, Digest = ''sha256:bb'', Size = 502\<rparr>"

definition demo_env :: "nat \<Rightarrow> UmociMeta \<Rightarrow> InodeDelta list \<Rightarrow> store env" where
  "demo_env fail meta diffs =
     \<lparr>ReadBundleMeta = (\<lambda>bundlePath w. (if fail = 1 then Inl demo_error else Inr meta, w)),
      cas_Open = (\<lambda>imagePath w. (if fail = 2 then Inl demo_error else Inr (Engine 0), w)),
      engine_Close = (\<lambda>engine w. (None, w)),
      mutate_New = (\<lambda>engine from w. (if fail = 3 then Inl demo_error else Inr (Mutator 0), w)),
      filepath_Join = (\<lambda>dir name. dir @ ''/'' @ name),
      layer_RootfsName = ''rootfs'',
      os_Open = (\<lambda>path w. (if fail = 4 then Inl demo_error else Inr (File 0), w)),
      file_Close = (\<lambda>mfh w. (None, w)),
      mtree_ParseSpec =
        (\<lambda>mfh w. (if fail = 5 then Inl demo_error else Inr (DirectoryHierarchy 0), w)),
      MtreeKeywords = [''size'', ''type'', ''uid'', ''gid'', ''mode''],
      mtree_Check =
        (\<lambda>root spec keywords fsEval w. (if fail = 6 then Inl demo_error else Inr diffs, w)),
      layer_GenerateLayer =
        (\<lambda>root diffs mapOptions w. (if fail = 7 then Inl demo_error else Inr (Reader 0), w)),
      reader_Close = (\<lambda>reader w. (None, w)),
      mutator_Meta =
        (\<lambda>mutator w. (if fail = 8 then Inl demo_error else Inr \<lparr>Meta.Author = ''base''\<rparr>, w)),
      time_Now = (\<lambda>w. (Time 0, w)),
      time_Format_ISO8601 = (\<lambda>now. ''2017-03-01T12:00:00Z''),
      mutator_Add =
        (\<lambda>mutator reader history w.
           if fail = 9 then (Some demo_error, w)
           else (None, w\<lparr>appended := appended w @ [(reader, history)]\<rparr>)),
      mutator_Commit =
        (\<lambda>mutator w.
           if fail = 10 then (Inl demo_error, w)
           else (Inr demo_new, w\<lparr>blobs := blobs w @ [Digest demo_new]\<rparr>)),
      engine_DeleteReference =
        (\<lambda>engine tagName w.
           if fail = 11 then (Some demo_error, w)
           else (None, w\<lparr>refs := (refs w)(tagName := None)\<rparr>)),
      engine_PutReference =
        (\<lambda>engine tagName descriptor w.
           if fail = 12 then (Some demo_error, w)
           else (None, w\<lparr>refs := (refs w)(tagName \<mapsto> descriptor)\<rparr>))\<rparr>"

definition demo_meta :: "string \<Rightarrow> string \<Rightarrow> bool \<Rightarrow> UmociMeta" where
  "demo_meta mediaType digest rootless =
     \<lparr>Version = ''2'',
      From = \<lparr>MediaType = mediaType, Digest = digest, Size = 348\<rparr>,
      MapOptions = \<lparr>UIDMappings = [], GIDMappings = [], Rootless = rootless\<rparr>\<rparr>"

definition demo_manifest :: UmociMeta where
  "demo_manifest = demo_meta MediaTypeImageManifest ''sha256:aa'' False"

definition demo_ctx :: Context where
  "demo_ctx =
     \<lparr>Metadata = map_of
        [(''--image-path'', StringVal ''image''),
         (''--image-tag'', StringVal ''latest''),
         (''bundle'', StringVal ''bundle''),
         (''--history.author'', StringVal ''someone'')]\<rparr>"

definition demo_store :: store where
  "demo_store =
     \<lparr>refs = [''latest'' \<mapsto> From demo_manifest], blobs = [''sha256:aa''], appended = []\<rparr>"

definition demo_rootless :: UmociMeta where
  "demo_rootless = demo_meta MediaTypeImageManifest ''sha256:aa'' True"

definition demo_sha512 :: UmociMeta where
  "demo_sha512 = demo_meta MediaTypeImageManifest ''sha512:cc'' False"

text \<open>A context whose comment override is not a string.\<close>

definition demo_ctx_not_string :: Context where
  "demo_ctx_not_string =
     \<lparr>Metadata = map_of
        [(''--image-path'', StringVal ''image''),
         (''--image-tag'', StringVal ''latest''),
         (''bundle'', StringVal ''bundle''),
         (''--history.comment'', OtherVal)]\<rparr>"

text \<open>The history record of the examples: the author is overridden, the rest is default.\<close>

definition demo_history :: History where
  "demo_history =
     \<lparr>History.Author = ''someone'', Comment = '''', Created = ''2017-03-01T12:00:00Z'',
      CreatedBy = ''umoci config'', EmptyLayer = False\<rparr>"

section \<open>Auxiliary notions for the claims\<close>

text \<open>
  The calls of a list are made in the order of the text of repack, starting at position
  \<open>n\<close>, none skipped and none repeated, and each but the last returned no error.
\<close>

fun in_order :: "nat \<Rightarrow> event list \<Rightarrow> bool" where
  "in_order n [] = True"
| "in_order n [e] = (position e = n)"
| "in_order n (e # e' # es) = (position e = n \<and> succeeded e \<and> in_order (Suc n) (e' # es))"

text \<open>
  Modelled from the spec: what the reference swap relies on from the store, which is
  missing from the source (sections 4.3, 4.4 and 6 of the specification). A successful
  \<^verbatim>\<open>deleteReference\<close> leaves the name unbound; a \<^verbatim>\<open>putReference\<close> that fails leaves the
  references as they were; closing a handle does not change them; the manifest that a
  successful \<^verbatim>\<open>Commit\<close> returns is addressable by its digest, and stays so across
  reference operations and closing, since blobs are only ever added.
\<close>

definition swap_contract ::
  "'w env \<Rightarrow> ('w \<Rightarrow> string \<Rightarrow> Descriptor option) \<Rightarrow> (Descriptor \<Rightarrow> 'w \<Rightarrow> bool) \<Rightarrow> bool" where
  "swap_contract env getReference addressable \<longleftrightarrow>
     (\<forall>engine tagName w w1.
        engine_DeleteReference env engine tagName w = (None, w1) \<longrightarrow> getReference w1 tagName = None)
     \<and> (\<forall>engine tagName descriptor err w w1.
          engine_PutReference env engine tagName descriptor w = (Some err, w1) \<longrightarrow>
          getReference w1 = getReference w)
     \<and> (\<forall>e. is_Close e \<longrightarrow> leaves env getReference e)
     \<and> (\<forall>mutator descriptor w w1.
          mutator_Commit env mutator w = (Inr descriptor, w1) \<longrightarrow> addressable descriptor w1)
     \<and> (\<forall>e descriptor. is_reference_op e \<or> is_Close e \<longrightarrow> leaves env (addressable descriptor) e)"

text \<open>
  Modelled from the spec: what \<^verbatim>\<open>Mutator.Add\<close> does to the image being mutated, which is
  missing from the source (section 4.3 of the specification). \<open>layers\<close> observes the layers
  the image has gained, each with its history record: a successful \<^verbatim>\<open>Add\<close> appends the
  layer read from its stream together with the history record it was given, and no other
  call changes the list.
\<close>

definition Add_contract :: "'w env \<Rightarrow> ('w \<Rightarrow> (Reader \<times> History) list) \<Rightarrow> bool" where
  "Add_contract env layers \<longleftrightarrow>
     (\<forall>mutator reader history w w1.
        mutator_Add env mutator reader history w = (None, w1) \<longrightarrow>
        layers w1 = layers w @ [(reader, history)])
     \<and> (\<forall>e. \<not> is_Add e \<longrightarrow> leaves env layers e)"

section \<open>Every run has one of the shapes, and its trace is a faithful log\<close>

lemma replay_append:
  "replay env (xs @ ys) w = (case replay env xs w of None \<Rightarrow> None | Some w1 \<Rightarrow> replay env ys w1)"
  by (induction xs arbitrary: w) (auto split: option.splits)

lemma replay_Cons_Some:
  assumes "replay env (e # es) w = Some w1"
  obtains w0 where "step env e w = Some w0" and "replay env es w0 = Some w1"
  using assms by (auto split: option.splits)

lemma replay_suffix:
  assumes "replay env (xs @ ys) w = Some w1"
  obtains w0 where "replay env xs w = Some w0" and "replay env ys w0 = Some w1"
  using assms by (auto simp: replay_append split: option.splits)

lemma answered_Some: "answered rw r = Some w1 \<longleftrightarrow> rw = (r, w1)"
  by (cases rw) (auto simp: answered_def)

lemma reader_runs:
  assumes "repack_after_defer_reader env ctx tagName engine mutator reader (tr0, w0) = (out, tr, w1)"
  shows "\<exists>tr1. tr = tr0 @ tr1 \<and> reader_shape env ctx tagName engine mutator reader out tr1
           \<and> replay env tr1 w0 = Some w1"
  using assms unfolding repack_after_defer_reader_def call_def
  by (auto simp: answered_def split: option.splits sum.splits prod.splits
           intro: reader_shape.intros)

lemma mfh_runs:
  assumes "repack_after_defer_mfh env ctx tagName bundlePath meta engine mutator mfh (tr0, w0)
             = (out, tr, w1)"
  shows "\<exists>tr1. tr = tr0 @ tr1
           \<and> mfh_shape env ctx tagName bundlePath meta engine mutator mfh out tr1
           \<and> replay env tr1 w0 = Some w1"
  using assms unfolding repack_after_defer_mfh_def call_def Let_def
  by (auto simp: answered_def replay_append split: option.splits sum.splits prod.splits
           intro: mfh_shape.intros dest!: reader_runs)

lemma engine_runs:
  assumes "repack_after_defer_engine env ctx tagName bundlePath meta engine (tr0, w0)
             = (out, tr, w1)"
  shows "\<exists>tr1. tr = tr0 @ tr1 \<and> engine_shape env ctx tagName bundlePath meta engine out tr1
           \<and> replay env tr1 w0 = Some w1"
  using assms unfolding repack_after_defer_engine_def call_def
  by (auto simp: answered_def replay_append split: option.splits sum.splits prod.splits
           intro: engine_shape.intros dest!: mfh_runs)

lemma repack_runs:
  assumes "repack env ctx w = (out, tr, w1)"
  shows "repack_shape env ctx out tr \<and> replay env tr w = Some w1"
  using assms unfolding repack_def call_def
  by (auto simp: answered_def replay_append split: option.splits sum.splits prod.splits if_splits
           intro: repack_shape.intros dest!: engine_runs)

lemma replay_leaves:
  assumes "replay env tr w = Some w1" and "\<forall>e\<in>set tr. leaves env obs e"
  shows "obs w1 = obs w"
  using assms
proof (induction tr arbitrary: w)
  case Nil
  then show ?case by simp
next
  case (Cons e es)
  from Cons.prems(1) obtain w0 where e: "step env e w = Some w0" and es: "replay env es w0 = Some w1"
    by (auto split: option.splits)
  from Cons.prems(2) e have "obs w0 = obs w"
    by (simp add: leaves_def)
  moreover from Cons.IH [OF es] Cons.prems(2) have "obs w1 = obs w0"
    by simp
  ultimately show ?case by simp
qed

section \<open>Runs of the examples\<close>

lemmas shape_cases = repack_shape.cases engine_shape.cases mfh_shape.cases reader_shape.cases

lemmas repack_defs = repack_def repack_after_defer_engine_def repack_after_defer_mfh_def
  repack_after_defer_reader_def call_def history_overrides_def override_def
  type_assert_string_def history_literal_def mtreePath_def mtreeName_def fullRootfsPath_def

lemmas demo_defs = demo_env_def demo_ctx_def demo_store_def demo_manifest_def demo_meta_def
  demo_rootless_def demo_sha512_def demo_ctx_not_string_def demo_history_def

text \<open>Nothing fails, the diff is empty.\<close>

lemma demo_succeeds:
  "repack (demo_env 0 demo_manifest []) demo_ctx demo_store =
     (Returns None,
      [Call_ReadBundleMeta ''bundle'' (Inr demo_manifest),
       Call_cas_Open ''image'' (Inr (Engine 0)),
       Call_mutate_New (Engine 0) (From demo_manifest) (Inr (Mutator 0)),
       Call_os_Open ''bundle/sha256_aa.mtree'' (Inr (File 0)),
       Call_mtree_ParseSpec (File 0) (Inr (DirectoryHierarchy 0)),
       Call_mtree_Check ''bundle/rootfs'' (DirectoryHierarchy 0)
         [''size'', ''type'', ''uid'', ''gid'', ''mode''] DefaultFsEval (Inr []),
       Call_layer_GenerateLayer ''bundle/rootfs'' [] (MapOptions demo_manifest) (Inr (Reader 0)),
       Call_mutator_Meta (Mutator 0) (Inr \<lparr>Meta.Author = ''base''\<rparr>),
       Call_time_Now (Time 0),
       Call_mutator_Add (Mutator 0) (Reader 0) demo_history None,
       Call_mutator_Commit (Mutator 0) (Inr demo_new),
       Call_engine_DeleteReference (Engine 0) ''latest'' None,
       Call_engine_PutReference (Engine 0) ''latest'' demo_new None,
       Call_reader_Close (Reader 0) None,
       Call_file_Close (File 0) None,
       Call_engine_Close (Engine 0) None],
      \<lparr>refs = [''latest'' \<mapsto> demo_new], blobs = [''sha256:aa'', ''sha256:bb''],
       appended = [(Reader 0, demo_history)]\<rparr>)"
  by (simp add: repack_defs demo_defs demo_new_def)

text \<open>\<^verbatim>\<open>Mutator.Commit\<close> fails.\<close>

lemma demo_Commit_fails:
  "repack (demo_env 10 demo_manifest []) demo_ctx demo_store =
     (Returns (Some (Wrap demo_error ''commit mutated image'')),
      [Call_ReadBundleMeta ''bundle'' (Inr demo_manifest),
       Call_cas_Open ''image'' (Inr (Engine 0)),
       Call_mutate_New (Engine 0) (From demo_manifest) (Inr (Mutator 0)),
       Call_os_Open ''bundle/sha256_aa.mtree'' (Inr (File 0)),
       Call_mtree_ParseSpec (File 0) (Inr (DirectoryHierarchy 0)),
       Call_mtree_Check ''bundle/rootfs'' (DirectoryHierarchy 0)
         [''size'', ''type'', ''uid'', ''gid'', ''mode''] DefaultFsEval (Inr []),
       Call_layer_GenerateLayer ''bundle/rootfs'' [] (MapOptions demo_manifest) (Inr (Reader 0)),
       Call_mutator_Meta (Mutator 0) (Inr \<lparr>Meta.Author = ''base''\<rparr>),
       Call_time_Now (Time 0),
       Call_mutator_Add (Mutator 0) (Reader 0) demo_history None,
       Call_mutator_Commit (Mutator 0) (Inl demo_error),
       Call_reader_Close (Reader 0) None,
       Call_file_Close (File 0) None,
       Call_engine_Close (Engine 0) None],
      demo_store\<lparr>appended := [(Reader 0, demo_history)]\<rparr>)"
  by (simp add: repack_defs demo_defs)

text \<open>\<^verbatim>\<open>DeleteReference\<close> fails.\<close>

lemma demo_Delete_fails:
  "repack (demo_env 11 demo_manifest []) demo_ctx demo_store =
     (Returns (Some demo_error),
      [Call_ReadBundleMeta ''bundle'' (Inr demo_manifest),
       Call_cas_Open ''image'' (Inr (Engine 0)),
       Call_mutate_New (Engine 0) (From demo_manifest) (Inr (Mutator 0)),
       Call_os_Open ''bundle/sha256_aa.mtree'' (Inr (File 0)),
       Call_mtree_ParseSpec (File 0) (Inr (DirectoryHierarchy 0)),
       Call_mtree_Check ''bundle/rootfs'' (DirectoryHierarchy 0)
         [''size'', ''type'', ''uid'', ''gid'', ''mode''] DefaultFsEval (Inr []),
       Call_layer_GenerateLayer ''bundle/rootfs'' [] (MapOptions demo_manifest) (Inr (Reader 0)),
       Call_mutator_Meta (Mutator 0) (Inr \<lparr>Meta.Author = ''base''\<rparr>),
       Call_time_Now (Time 0),
       Call_mutator_Add (Mutator 0) (Reader 0) demo_history None,
       Call_mutator_Commit (Mutator 0) (Inr demo_new),
       Call_engine_DeleteReference (Engine 0) ''latest'' (Some demo_error),
       Call_reader_Close (Reader 0) None,
       Call_file_Close (File 0) None,
       Call_engine_Close (Engine 0) None],
      \<lparr>refs = [''latest'' \<mapsto> From demo_manifest], blobs = [''sha256:aa'', ''sha256:bb''],
       appended = [(Reader 0, demo_history)]\<rparr>)"
  by (simp add: repack_defs demo_defs demo_new_def)

text \<open>\<^verbatim>\<open>PutReference\<close> fails.\<close>

lemma demo_Put_fails:
  "repack (demo_env 12 demo_manifest []) demo_ctx demo_store =
     (Returns (Some demo_error),
      [Call_ReadBundleMeta ''bundle'' (Inr demo_manifest),
       Call_cas_Open ''image'' (Inr (Engine 0)),
       Call_mutate_New (Engine 0) (From demo_manifest) (Inr (Mutator 0)),
       Call_os_Open ''bundle/sha256_aa.mtree'' (Inr (File 0)),
       Call_mtree_ParseSpec (File 0) (Inr (DirectoryHierarchy 0)),
       Call_mtree_Check ''bundle/rootfs'' (DirectoryHierarchy 0)
         [''size'', ''type'', ''uid'', ''gid'', ''mode''] DefaultFsEval (Inr []),
       Call_layer_GenerateLayer ''bundle/rootfs'' [] (MapOptions demo_manifest) (Inr (Reader 0)),
       Call_mutator_Meta (Mutator 0) (Inr \<lparr>Meta.Author = ''base''\<rparr>),
       Call_time_Now (Time 0),
       Call_mutator_Add (Mutator 0) (Reader 0) demo_history None,
       Call_mutator_Commit (Mutator 0) (Inr demo_new),
       Call_engine_DeleteReference (Engine 0) ''latest'' None,
       Call_engine_PutReference (Engine 0) ''latest'' demo_new (Some demo_error),
       Call_reader_Close (Reader 0) None,
       Call_file_Close (File 0) None,
       Call_engine_Close (Engine 0) None],
      \<lparr>refs = Map.empty, blobs = [''sha256:aa'', ''sha256:bb''],
       appended = [(Reader 0, demo_history)]\<rparr>)"
  by (simp add: repack_defs demo_defs demo_new_def)

text \<open>A rootless bundle, and \<^verbatim>\<open>mtree.Check\<close> fails.\<close>

lemma demo_rootless_Check_fails:
  "repack (demo_env 6 demo_rootless []) demo_ctx demo_store =
     (Returns (Some (Wrap demo_error ''check mtree'')),
      [Call_ReadBundleMeta ''bundle'' (Inr demo_rootless),
       Call_cas_Open ''image'' (Inr (Engine 0)),
       Call_mutate_New (Engine 0) (From demo_rootless) (Inr (Mutator 0)),
       Call_os_Open ''bundle/sha256_aa.mtree'' (Inr (File 0)),
       Call_mtree_ParseSpec (File 0) (Inr (DirectoryHierarchy 0)),
       Call_mtree_Check ''bundle/rootfs'' (DirectoryHierarchy 0)
         [''size'', ''type'', ''uid'', ''gid'', ''mode''] RootlessFsEval (Inl demo_error),
       Call_file_Close (File 0) None,
       Call_engine_Close (Engine 0) None],
      demo_store)"
  by (simp add: repack_defs demo_defs)

text \<open>The base digest is a sha512 digest, and \<^verbatim>\<open>mtree.ParseSpec\<close> fails.\<close>

lemma demo_sha512_ParseSpec_fails:
  "repack (demo_env 5 demo_sha512 []) demo_ctx demo_store =
     (Returns (Some (Wrap demo_error ''parse mtree'')),
      [Call_ReadBundleMeta ''bundle'' (Inr demo_sha512),
       Call_cas_Open ''image'' (Inr (Engine 0)),
       Call_mutate_New (Engine 0) (From demo_sha512) (Inr (Mutator 0)),
       Call_os_Open ''bundle/sha512:cc.mtree'' (Inr (File 0)),
       Call_mtree_ParseSpec (File 0) (Inl demo_error),
       Call_file_Close (File 0) None,
       Call_engine_Close (Engine 0) None],
      demo_store)"
  by (simp add: repack_defs demo_defs)

text \<open>The comment override is not a string: the type assertion of line 179 panics.\<close>

lemma demo_override_panics:
  "repack (demo_env 0 demo_manifest [(Extra, ''etc/motd'')]) demo_ctx_not_string demo_store =
     (Panics,
      [Call_ReadBundleMeta ''bundle'' (Inr demo_manifest),
       Call_cas_Open ''image'' (Inr (Engine 0)),
       Call_mutate_New (Engine 0) (From demo_manifest) (Inr (Mutator 0)),
       Call_os_Open ''bundle/sha256_aa.mtree'' (Inr (File 0)),
       Call_mtree_ParseSpec (File 0) (Inr (DirectoryHierarchy 0)),
       Call_mtree_Check ''bundle/rootfs'' (DirectoryHierarchy 0)
         [''size'', ''type'', ''uid'', ''gid'', ''mode''] DefaultFsEval
         (Inr [(Extra, ''etc/motd'')]),
       Call_layer_GenerateLayer ''bundle/rootfs'' [(Extra, ''etc/motd'')]
         (MapOptions demo_manifest) (Inr (Reader 0)),
       Call_mutator_Meta (Mutator 0) (Inr \<lparr>Meta.Author = ''base''\<rparr>),
       Call_time_Now (Time 0),
       Call_reader_Close (Reader 0) None,
       Call_file_Close (File 0) None,
       Call_engine_Close (Engine 0) None],
      demo_store)"
  by (simp add: repack_defs demo_defs)

section \<open>The claims\<close>

subsection \<open>C1: a failure up to Commit leaves the tag reference alone\<close>

text \<open>
  Claim C1. If a stage of repack up to and including \<^verbatim>\<open>Mutator.Commit\<close> fails (one of the
  ten fallible calls before the swap returns an error, or the media type check rejects the
  metadata), repack returns a wrapped error, its trace holds no call of
  \<^verbatim>\<open>DeleteReference\<close> or \<^verbatim>\<open>PutReference\<close>, and every observation of the world that
  only those two calls can change (such as \<^verbatim>\<open>getReference\<close>) is what it was before.
\<close>

theorem failure_before_swap_keeps_reference:
  assumes run: "repack env ctx w = (out, tr, w1)"
    and failed: "list_ex stage_failed tr"
  shows "(\<exists>err msg. out = Returns (Some (Wrap err msg)))
         \<and> \<not> list_ex is_reference_op tr
         \<and> ((\<forall>e. \<not> is_reference_op e \<longrightarrow> leaves env getReference e)
              \<longrightarrow> getReference w1 = getReference w)"
proof -
  from repack_runs [OF run] have shape: "repack_shape env ctx out tr"
    and log: "replay env tr w = Some w1"
    by simp_all
  from shape failed have wrapped: "\<exists>err msg. out = Returns (Some (Wrap err msg))"
    and quiet: "\<not> list_ex is_reference_op tr"
    by (auto elim!: shape_cases)
  have "getReference w1 = getReference w"
    if frame: "\<forall>e. \<not> is_reference_op e \<longrightarrow> leaves env getReference e"
  proof (rule replay_leaves [OF log])
    from quiet frame show "\<forall>e\<in>set tr. leaves env getReference e"
      by (auto simp: list_ex_iff)
  qed
  with wrapped quiet show ?thesis by blast
qed

theorem failure_before_swap_keeps_reference_witness:
  "list_ex stage_failed (fst (snd (repack (demo_env 10 demo_manifest []) demo_ctx demo_store)))
   \<and> fst (repack (demo_env 10 demo_manifest []) demo_ctx demo_store)
       = Returns (Some (Wrap demo_error ''commit mutated image''))
   \<and> \<not> list_ex is_reference_op
          (fst (snd (repack (demo_env 10 demo_manifest []) demo_ctx demo_store)))
   \<and> refs (snd (snd (repack (demo_env 10 demo_manifest []) demo_ctx demo_store)))
       = refs demo_store"
proof -
  let ?env = "demo_env 10 demo_manifest []"
  obtain out tr w1 where run: "repack ?env demo_ctx demo_store = (out, tr, w1)"
    by (rule prod_cases3)
  from run have failed: "list_ex stage_failed tr"
    by (auto simp: demo_Commit_fails)
  have frame: "\<forall>e. \<not> is_reference_op e \<longrightarrow> leaves ?env refs e"
  proof (intro allI impI)
    fix e :: event
    assume "\<not> is_reference_op e"
    then show "leaves ?env refs e"
      by (cases e) (auto simp: leaves_def answered_def demo_env_def split: if_splits)
  qed
  from failure_before_swap_keeps_reference [OF run failed, of refs] frame run failed
  show ?thesis
    by (simp add: demo_Commit_fails)
qed

subsection \<open>C2: a base that is not a manifest is rejected before anything is opened\<close>

text \<open>
  Claim C2. For every bundle whose saved \<^verbatim>\<open>From\<close> descriptor has a media type other than
  \<^verbatim>\<open>ispec.MediaTypeImageManifest\<close>, repack returns the error of line 100 after a single
  call, the one that read the metadata: the CAS is not opened, no mutator is created,
  no reference is touched, and the world is as \<^verbatim>\<open>ReadBundleMeta\<close> left it.
\<close>

theorem non_manifest_base_rejected_first:
  assumes "type_assert_string (Metadata ctx ''--image-path'') = Some imagePath"
    and "type_assert_string (Metadata ctx ''--image-tag'') = Some tagName"
    and "type_assert_string (Metadata ctx ''bundle'') = Some bundlePath"
    and "ReadBundleMeta env bundlePath w = (Inr meta, w1)"
    and "MediaType (From meta) \<noteq> MediaTypeImageManifest"
  shows "repack env ctx w =
           (Returns (Some (Wrap (not_implemented (MediaType (From meta)))
                               ''invalid saved from descriptor'')),
            [Call_ReadBundleMeta bundlePath (Inr meta)],
            w1)"
  using assms by (simp add: repack_def call_def)

theorem non_manifest_base_rejected_first_witness:
  "repack (demo_env 0 (demo_meta ''application/vnd.oci.image.index.v1+json'' ''sha256:aa'' False) [])
          demo_ctx demo_store =
     (Returns (Some (Wrap (not_implemented ''application/vnd.oci.image.index.v1+json'')
                         ''invalid saved from descriptor'')),
      [Call_ReadBundleMeta ''bundle''
         (Inr (demo_meta ''application/vnd.oci.image.index.v1+json'' ''sha256:aa'' False))],
      demo_store)"
proof -
  let ?meta = "demo_meta ''application/vnd.oci.image.index.v1+json'' ''sha256:aa'' False"
  have "type_assert_string (Metadata demo_ctx ''--image-path'') = Some ''image''"
    and "type_assert_string (Metadata demo_ctx ''--image-tag'') = Some ''latest''"
    and "type_assert_string (Metadata demo_ctx ''bundle'') = Some ''bundle''"
    by (simp_all add: type_assert_string_def demo_ctx_def)
  moreover have "ReadBundleMeta (demo_env 0 ?meta []) ''bundle'' demo_store = (Inr ?meta, demo_store)"
    by (simp add: demo_env_def)
  moreover have "MediaType (From ?meta) \<noteq> MediaTypeImageManifest"
    by (simp add: demo_meta_def MediaTypeImageManifest_def)
  ultimately show ?thesis
    using non_manifest_base_rejected_first [of demo_ctx "''image''" "''latest''" "''bundle''"
        "demo_env 0 ?meta []" demo_store ?meta demo_store]
    by (simp add: demo_meta_def)
qed

subsection \<open>C3: the order of the stages\<close>

lemma in_order_nth:
  assumes "in_order n es" and "i < length es"
  shows "position (es ! i) = n + i \<and> (Suc i < length es \<longrightarrow> succeeded (es ! i))"
  using assms
proof (induction n es arbitrary: i rule: in_order.induct)
  case (1 n)
  then show ?case by simp
next
  case (2 n e)
  then show ?case by simp
next
  case (3 n e e' es)
  show ?case
  proof (cases i)
    case 0
    with "3.prems" show ?thesis by simp
  next
    case (Suc j)
    with "3.prems" have "in_order (Suc n) (e' # es)" and "j < length (e' # es)"
      by simp_all
    from "3.IH" [OF this] Suc show ?thesis by simp
  qed
qed

lemma repack_in_order:
  assumes "repack_shape env ctx out tr"
  shows "in_order 0 (filter (\<lambda>e. \<not> is_Close e) tr)"
  using assms by (auto elim!: shape_cases)

text \<open>
  Claim C3. When repack returns nil, its trace is exactly: read the bundle metadata, open
  the CAS, create the mutator for the base descriptor, open and parse the snapshot, compare
  it with the root filesystem, generate the layer, read the image metadata and the clock,
  \<^verbatim>\<open>Mutator.Add\<close>, \<^verbatim>\<open>Mutator.Commit\<close>, \<^verbatim>\<open>DeleteReference\<close> and \<^verbatim>\<open>PutReference\<close>, each once, each on
  what the calls before it returned, then the three deferred calls. And on every run, the
  calls before the deferred ones are an initial part of that sequence, none skipped and none
  repeated (the call at index \<open>i\<close> is the one at position \<open>i\<close> of the text), and each of
  them but the last returned no error: no stage starts before the previous one succeeded.
\<close>

theorem stages_in_order:
  assumes run: "repack env ctx w = (out, tr, w1)"
  shows "(out = Returns None \<longrightarrow>
            (\<exists>bundlePath imagePath tagName meta engine mutator mfh spec diffs reader imageMeta
                now history newDescriptor r1 r2 r3.
               tr = [Call_ReadBundleMeta bundlePath (Inr meta),
                     Call_cas_Open imagePath (Inr engine),
                     Call_mutate_New engine (From meta) (Inr mutator),
                     Call_os_Open (mtreePath env bundlePath meta) (Inr mfh),
                     Call_mtree_ParseSpec mfh (Inr spec),
                     Call_mtree_Check (fullRootfsPath env bundlePath) spec (MtreeKeywords env)
                       (if Rootless (MapOptions meta) then RootlessFsEval else DefaultFsEval)
                       (Inr diffs),
                     Call_layer_GenerateLayer (fullRootfsPath env bundlePath) diffs
                       (MapOptions meta) (Inr reader),
                     Call_mutator_Meta mutator (Inr imageMeta),
                     Call_time_Now now,
                     Call_mutator_Add mutator reader history None,
                     Call_mutator_Commit mutator (Inr newDescriptor),
                     Call_engine_DeleteReference engine tagName None,
                     Call_engine_PutReference engine tagName newDescriptor None,
                     Call_reader_Close reader r1,
                     Call_file_Close mfh r2,
                     Call_engine_Close engine r3]))
         \<and> (\<forall>i < length (filter (\<lambda>e. \<not> is_Close e) tr).
               position (filter (\<lambda>e. \<not> is_Close e) tr ! i) = i
               \<and> (Suc i < length (filter (\<lambda>e. \<not> is_Close e) tr) \<longrightarrow>
                    succeeded (filter (\<lambda>e. \<not> is_Close e) tr ! i)))"
proof -
  from repack_runs [OF run] have shape: "repack_shape env ctx out tr"
    by simp
  have "\<exists>bundlePath imagePath tagName meta engine mutator mfh spec diffs reader imageMeta
                now history newDescriptor r1 r2 r3.
               tr = [Call_ReadBundleMeta bundlePath (Inr meta),
                     Call_cas_Open imagePath (Inr engine),
                     Call_mutate_New engine (From meta) (Inr mutator),
                     Call_os_Open (mtreePath env bundlePath meta) (Inr mfh),
                     Call_mtree_ParseSpec mfh (Inr spec),
                     Call_mtree_Check (fullRootfsPath env bundlePath) spec (MtreeKeywords env)
                       (if Rootless (MapOptions meta) then RootlessFsEval else DefaultFsEval)
                       (Inr diffs),
                     Call_layer_GenerateLayer (fullRootfsPath env bundlePath) diffs
                       (MapOptions meta) (Inr reader),
                     Call_mutator_Meta mutator (Inr imageMeta),
                     Call_time_Now now,
                     Call_mutator_Add mutator reader history None,
                     Call_mutator_Commit mutator (Inr newDescriptor),
                     Call_engine_DeleteReference engine tagName None,
                     Call_engine_PutReference engine tagName newDescriptor None,
                     Call_reader_Close reader r1,
                     Call_file_Close mfh r2,
                     Call_engine_Close engine r3]"
    if "out = Returns None"
    using shape that by (elim shape_cases; simp)
  moreover have "position (filter (\<lambda>e. \<not> is_Close e) tr ! i) = i
        \<and> (Suc i < length (filter (\<lambda>e. \<not> is_Close e) tr) \<longrightarrow>
             succeeded (filter (\<lambda>e. \<not> is_Close e) tr ! i))"
    if "i < length (filter (\<lambda>e. \<not> is_Close e) tr)" for i
    using in_order_nth [OF repack_in_order [OF shape] that] by simp
  ultimately show ?thesis
    by blast
qed

theorem stages_in_order_witness:
  "fst (repack (demo_env 0 demo_manifest []) demo_ctx demo_store) = Returns None
   \<and> length (fst (snd (repack (demo_env 0 demo_manifest []) demo_ctx demo_store))) = 16
   \<and> map position (fst (snd (repack (demo_env 0 demo_manifest []) demo_ctx demo_store)))
       = [0, 1, 2, 3, 4, 5, 6, 7, 8, 9, 10, 11, 12, 13, 14, 15]
   \<and> position (filter (\<lambda>e. \<not> is_Close e)
                  (fst (snd (repack (demo_env 0 demo_manifest []) demo_ctx demo_store))) ! 12) = 12
   \<and> succeeded (filter (\<lambda>e. \<not> is_Close e)
                  (fst (snd (repack (demo_env 0 demo_manifest []) demo_ctx demo_store))) ! 11)"
proof -
  define tr where "tr = fst (snd (repack (demo_env 0 demo_manifest []) demo_ctx demo_store))"
  have run: "repack (demo_env 0 demo_manifest []) demo_ctx demo_store
               = (Returns None, tr, snd (snd (repack (demo_env 0 demo_manifest []) demo_ctx demo_store)))"
    by (simp add: tr_def demo_succeeds)
  from stages_in_order [OF run, THEN conjunct1] have sixteen: "length tr = 16"
    by auto
  have len: "length (filter (\<lambda>e. \<not> is_Close e) tr) = 13"
    by (simp add: tr_def demo_succeeds)
  note order = stages_in_order [OF run, THEN conjunct2, rule_format]
  from order [of 12] len
  have last: "position (filter (\<lambda>e. \<not> is_Close e) tr ! 12) = 12"
    by simp
  from order [of 11] len
  have "succeeded (filter (\<lambda>e. \<not> is_Close e) tr ! 11)"
    by simp
  with last sixteen show ?thesis
    unfolding tr_def [symmetric] by (simp add: tr_def demo_succeeds)
qed

subsection \<open>C4: the reference swap\<close>

lemma swap_keeps_manifest:
  assumes contract: "swap_contract env getReference addressable"
    and log: "replay env (Call_mutator_Commit mutator (Inr descriptor) # rest) w = Some w1"
    and rest: "list_all (\<lambda>e. is_reference_op e \<or> is_Close e) rest"
  shows "addressable descriptor w1"
proof -
  from log obtain w0 where
    commit: "step env (Call_mutator_Commit mutator (Inr descriptor)) w = Some w0" and
    after: "replay env rest w0 = Some w1"
    by (rule replay_Cons_Some)
  from commit have "mutator_Commit env mutator w = (Inr descriptor, w0)"
    by (simp add: answered_Some)
  with contract have "addressable descriptor w0"
    unfolding swap_contract_def by blast
  moreover from contract rest have "\<forall>e\<in>set rest. leaves env (addressable descriptor) e"
    unfolding swap_contract_def list_all_iff by blast
  from replay_leaves [OF after this] have "addressable descriptor w1 = addressable descriptor w0" .
  ultimately show ?thesis by simp
qed

lemma failed_put_leaves_tag_absent:
  assumes contract: "swap_contract env getReference addressable"
    and log: "replay env (Call_engine_DeleteReference engine tagName None
                          # Call_engine_PutReference engine tagName descriptor (Some err)
                          # closes) w = Some w1"
    and closes: "list_all is_Close closes"
  shows "getReference w1 tagName = None"
proof -
  from log obtain wd where
    del: "step env (Call_engine_DeleteReference engine tagName None) w = Some wd" and
    log1: "replay env (Call_engine_PutReference engine tagName descriptor (Some err) # closes) wd
             = Some w1"
    by (rule replay_Cons_Some)
  from log1 obtain wp where
    put: "step env (Call_engine_PutReference engine tagName descriptor (Some err)) wd = Some wp" and
    log2: "replay env closes wp = Some w1"
    by (rule replay_Cons_Some)
  from del have "engine_DeleteReference env engine tagName w = (None, wd)"
    by (simp add: answered_Some)
  with contract have "getReference wd tagName = None"
    unfolding swap_contract_def by blast
  moreover from put have "engine_PutReference env engine tagName descriptor wd = (Some err, wp)"
    by (simp add: answered_Some)
  with contract have "getReference wp = getReference wd"
    unfolding swap_contract_def by blast
  moreover from contract closes have "\<forall>e\<in>set closes. leaves env getReference e"
    unfolding swap_contract_def list_all_iff by blast
  from replay_leaves [OF log2 this] have "getReference w1 = getReference wp" .
  ultimately show ?thesis by simp
qed

text \<open>
  Claim C4. Once \<^verbatim>\<open>Mutator.Commit\<close> has returned a descriptor, no reference call has been
  made yet, and what follows the commit is \<^verbatim>\<open>DeleteReference(tagName)\<close>, then, only if that
  returned no error, \<^verbatim>\<open>PutReference(tagName, newDescriptor)\<close> with the descriptor of the
  commit, then nothing but the deferred calls; repack returns what the last of the two
  returned. On a store that keeps the contract of the swap, the committed manifest is
  still addressable by its digest when repack returns, and if the delete succeeded and the
  put failed the tag is absent.
\<close>

theorem reference_swap_is_delete_then_put:
  assumes run: "repack env ctx w = (out, tr, w1)"
    and commit: "Call_mutator_Commit mutator (Inr newDescriptor) \<in> set tr"
  shows "\<exists>engine tagName closes.
           type_assert_string (Metadata ctx ''--image-tag'') = Some tagName
           \<and> list_all is_Close closes
           \<and> \<not> list_ex is_reference_op (takeWhile (\<lambda>e. \<not> is_Commit e) tr)
           \<and> ((\<exists>err. dropWhile (\<lambda>e. \<not> is_Commit e) tr
                       = Call_mutator_Commit mutator (Inr newDescriptor)
                         # Call_engine_DeleteReference engine tagName (Some err)
                         # closes
                     \<and> out = Returns (Some err))
                \<or> (\<exists>r. dropWhile (\<lambda>e. \<not> is_Commit e) tr
                         = Call_mutator_Commit mutator (Inr newDescriptor)
                           # Call_engine_DeleteReference engine tagName None
                           # Call_engine_PutReference engine tagName newDescriptor r
                           # closes
                       \<and> out = Returns r
                       \<and> (swap_contract env getReference addressable \<longrightarrow> r \<noteq> None \<longrightarrow>
                            getReference w1 tagName = None)))
           \<and> (swap_contract env getReference addressable \<longrightarrow> addressable newDescriptor w1)"
proof -
  let ?after = "dropWhile (\<lambda>e. \<not> is_Commit e) tr"
  from repack_runs [OF run] have shape: "repack_shape env ctx out tr"
    and log: "replay env tr w = Some w1"
    by simp_all
  from shape commit obtain engine tagName closes r where
    tag: "type_assert_string (Metadata ctx ''--image-tag'') = Some tagName" and
    closes: "list_all is_Close closes" and
    before: "\<not> list_ex is_reference_op (takeWhile (\<lambda>e. \<not> is_Commit e) tr)" and
    swap: "(\<exists>err. r = Some err
              \<and> ?after = Call_mutator_Commit mutator (Inr newDescriptor)
                         # Call_engine_DeleteReference engine tagName (Some err)
                         # closes)
           \<or> ?after = Call_mutator_Commit mutator (Inr newDescriptor)
                      # Call_engine_DeleteReference engine tagName None
                      # Call_engine_PutReference engine tagName newDescriptor r
                      # closes" and
    out: "out = Returns r"
    by (elim shape_cases; simp; blast)
  have "tr = takeWhile (\<lambda>e. \<not> is_Commit e) tr @ ?after"
    by simp
  with log obtain wc where after: "replay env ?after wc = Some w1"
    by (metis replay_suffix)
  have manifest: "addressable newDescriptor w1"
    if contract: "swap_contract env getReference addressable"
  proof -
    from swap closes obtain rest where
      "?after = Call_mutator_Commit mutator (Inr newDescriptor) # rest" and
      "list_all (\<lambda>e. is_reference_op e \<or> is_Close e) rest"
      by (auto simp: list_all_iff)
    with after swap_keeps_manifest [OF contract] show ?thesis
      by metis
  qed
  show ?thesis
  proof (cases "\<exists>err. r = Some err
              \<and> ?after = Call_mutator_Commit mutator (Inr newDescriptor)
                         # Call_engine_DeleteReference engine tagName (Some err)
                         # closes")
    case True
    with tag closes before out manifest show ?thesis
      by blast
  next
    case False
    with swap have put: "?after = Call_mutator_Commit mutator (Inr newDescriptor)
                      # Call_engine_DeleteReference engine tagName None
                      # Call_engine_PutReference engine tagName newDescriptor r
                      # closes"
      by blast
    have "getReference w1 tagName = None"
      if contract: "swap_contract env getReference addressable" and failed: "r \<noteq> None"
    proof -
      from failed obtain err where err: "r = Some err"
        by blast
      from after have "replay env (Call_mutator_Commit mutator (Inr newDescriptor)
                     # Call_engine_DeleteReference engine tagName None
                     # Call_engine_PutReference engine tagName newDescriptor (Some err)
                     # closes) wc = Some w1"
        unfolding put err .
      then obtain w0 where
        "replay env (Call_engine_DeleteReference engine tagName None
                     # Call_engine_PutReference engine tagName newDescriptor (Some err)
                     # closes) w0 = Some w1"
        by (rule replay_Cons_Some)
      from failed_put_leaves_tag_absent [OF contract this closes] show ?thesis .
    qed
    with tag closes before out manifest put show ?thesis
      by blast
  qed
qed

theorem reference_swap_is_delete_then_put_witness:
  "Call_mutator_Commit (Mutator 0) (Inr demo_new)
     \<in> set (fst (snd (repack (demo_env 12 demo_manifest []) demo_ctx demo_store)))
   \<and> swap_contract (demo_env 12 demo_manifest []) refs (\<lambda>(d::Descriptor) w. Digest d \<in> set (blobs w))
   \<and> fst (repack (demo_env 12 demo_manifest []) demo_ctx demo_store) = Returns (Some demo_error)
   \<and> refs (snd (snd (repack (demo_env 12 demo_manifest []) demo_ctx demo_store))) ''latest'' = None
   \<and> Digest demo_new
       \<in> set (blobs (snd (snd (repack (demo_env 12 demo_manifest []) demo_ctx demo_store))))"
proof -
  let ?env = "demo_env 12 demo_manifest []"
  let ?addressable = "\<lambda>(d::Descriptor) w. Digest d \<in> set (blobs w)"
  define out where "out = fst (repack ?env demo_ctx demo_store)"
  define tr where "tr = fst (snd (repack ?env demo_ctx demo_store))"
  define w1 where "w1 = snd (snd (repack ?env demo_ctx demo_store))"
  have run: "repack ?env demo_ctx demo_store = (out, tr, w1)"
    by (simp add: out_def tr_def w1_def)
  have commit: "Call_mutator_Commit (Mutator 0) (Inr demo_new) \<in> set tr"
    by (simp add: tr_def demo_Put_fails)
  have after: "dropWhile (\<lambda>e. \<not> is_Commit e) tr =
      [Call_mutator_Commit (Mutator 0) (Inr demo_new),
       Call_engine_DeleteReference (Engine 0) ''latest'' None,
       Call_engine_PutReference (Engine 0) ''latest'' demo_new (Some demo_error),
       Call_reader_Close (Reader 0) None,
       Call_file_Close (File 0) None,
       Call_engine_Close (Engine 0) None]"
    by (simp add: tr_def demo_Put_fails)
  have closing: "leaves ?env obs e" if "is_Close e" for e and obs :: "store \<Rightarrow> 'a"
    using that by (cases e) (simp_all add: leaves_def answered_Some demo_env_def)
  have swapping: "leaves ?env (?addressable d) e" if "is_reference_op e" for e and d :: Descriptor
    using that
    by (cases e) (auto simp: leaves_def answered_Some demo_env_def split: if_splits)
  have contract: "swap_contract ?env refs ?addressable"
    unfolding swap_contract_def
  proof (intro conjI allI impI)
    fix engine tagName w w1
    assume "engine_DeleteReference ?env engine tagName w = (None, w1)"
    then show "refs w1 tagName = None"
      by (auto simp: demo_env_def)
  next
    fix engine tagName descriptor err w w1
    assume "engine_PutReference ?env engine tagName descriptor w = (Some err, w1)"
    then show "refs w1 = refs w"
      by (auto simp: demo_env_def)
  next
    fix e :: event
    assume "is_Close e"
    then show "leaves ?env refs e"
      by (rule closing)
  next
    fix mutator descriptor w w1
    assume "mutator_Commit ?env mutator w = (Inr descriptor, w1)"
    then show "Digest descriptor \<in> set (blobs w1)"
      by (auto simp: demo_env_def)
  next
    fix e :: event and descriptor :: Descriptor
    assume "is_reference_op e \<or> is_Close e"
    then show "leaves ?env (?addressable descriptor) e"
      using closing swapping by blast
  qed
  from reference_swap_is_delete_then_put [OF run commit, of refs ?addressable] contract after
  have "refs w1 ''latest'' = None" and "Digest demo_new \<in> set (blobs w1)"
    by auto
  with commit contract show ?thesis
    unfolding tr_def w1_def by (simp add: demo_Put_fails)
qed

subsection \<open>C5: where the baseline snapshot is looked for\<close>

lemma strings_Replace1_prefix:
  "old \<noteq> [] \<Longrightarrow> strings_Replace1 (old @ rest) old new = new @ rest"
  by (cases old) simp_all

lemma strings_Replace1_absent:
  "old \<noteq> [] \<Longrightarrow> \<forall>before after. s \<noteq> before @ old @ after \<Longrightarrow> strings_Replace1 s old new = s"
proof (induction s)
  case Nil
  then show ?case by simp
next
  case (Cons c cs)
  have "take (length old) (c # cs) \<noteq> old"
  proof
    assume "take (length old) (c # cs) = old"
    then have "c # cs = [] @ old @ drop (length old) (c # cs)"
      by (metis append_Nil append_take_drop_id)
    with Cons.prems(2) show False by blast
  qed
  moreover have "\<forall>before after. cs \<noteq> before @ old @ after"
  proof (intro allI notI)
    fix before after
    assume "cs = before @ old @ after"
    then have "c # cs = (c # before) @ old @ after" by simp
    with Cons.prems(2) show False by blast
  qed
  ultimately show ?case
    using Cons.IH [OF Cons.prems(1)] by simp
qed

text \<open>
  Claim C5, as the specification states it, fails: the source replaces the substring
  \<^verbatim>\<open>sha256:\<close>, not the colon. For the digest \<^verbatim>\<open>sha512:cc\<close> the file that repack opens is
  \<^verbatim>\<open>bundle/sha512:cc.mtree\<close>, with the colon, and not \<^verbatim>\<open>bundle/sha512_cc.mtree\<close>.
\<close>

theorem snapshot_path_counterexample:
  "Digest (From demo_sha512) = ''sha512:cc''
   \<and> fst (snd (repack (demo_env 5 demo_sha512 []) demo_ctx demo_store)) ! 3
       = Call_os_Open ''bundle/sha512:cc.mtree'' (Inr (File 0))
   \<and> ''bundle/sha512:cc.mtree'' \<noteq> ''bundle/sha512_cc.mtree''"
  by (simp add: demo_sha512_ParseSpec_fails) (simp add: demo_sha512_def demo_meta_def)

text \<open>
  Claim C5, amended. Whenever repack opens the baseline snapshot, its path is
  \<^verbatim>\<open>filepath.Join\<close> of the bundle directory and a name that is the digest of the base
  descriptor with the first occurrence of \<^verbatim>\<open>sha256:\<close> replaced by \<^verbatim>\<open>sha256_\<close>,
  followed by \<^verbatim>\<open>.mtree\<close>. So for a digest \<^verbatim>\<open>sha256:<hex>\<close> the name is
  \<^verbatim>\<open>sha256_<hex>.mtree\<close>, and a digest in which \<^verbatim>\<open>sha256:\<close> does not occur is used as
  it is, colon included.
\<close>

theorem snapshot_path:
  assumes run: "repack env ctx w = (out, tr, w1)"
    and opened: "Call_os_Open path r \<in> set tr"
  shows "\<exists>bundlePath meta.
           type_assert_string (Metadata ctx ''bundle'') = Some bundlePath
           \<and> hd tr = Call_ReadBundleMeta bundlePath (Inr meta)
           \<and> path = filepath_Join env bundlePath
                       (strings_Replace1 (Digest (From meta)) ''sha256:'' ''sha256_'' @ ''.mtree'')
           \<and> (\<forall>hex. Digest (From meta) = ''sha256:'' @ hex \<longrightarrow>
                 path = filepath_Join env bundlePath (''sha256_'' @ hex @ ''.mtree''))
           \<and> ((\<forall>before after. Digest (From meta) \<noteq> before @ ''sha256:'' @ after) \<longrightarrow>
                 path = filepath_Join env bundlePath (Digest (From meta) @ ''.mtree''))"
proof -
  from repack_runs [OF run] have "repack_shape env ctx out tr"
    by simp
  with opened obtain bundlePath meta where
    b: "type_assert_string (Metadata ctx ''bundle'') = Some bundlePath" and
    m: "hd tr = Call_ReadBundleMeta bundlePath (Inr meta)" and
    p: "path = mtreePath env bundlePath meta"
    by (auto elim!: shape_cases)
  have "strings_Replace1 (''sha256:'' @ hex) ''sha256:'' ''sha256_'' = ''sha256_'' @ hex" for hex
    by (rule strings_Replace1_prefix) simp
  moreover have "strings_Replace1 (Digest (From meta)) ''sha256:'' ''sha256_'' = Digest (From meta)"
    if "\<forall>before after. Digest (From meta) \<noteq> before @ ''sha256:'' @ after"
    using that by (intro strings_Replace1_absent) simp_all
  ultimately show ?thesis
    using b m p unfolding mtreePath_def mtreeName_def
    by (intro exI [of _ bundlePath] exI [of _ meta]) (simp del: strings_Replace1.simps)
qed

theorem snapshot_path_witness:
  "Call_os_Open ''bundle/sha256_aa.mtree'' (Inr (File 0))
     \<in> set (fst (snd (repack (demo_env 0 demo_manifest []) demo_ctx demo_store)))
   \<and> Digest (From demo_manifest) = ''sha256:'' @ ''aa''
   \<and> ''bundle/sha256_aa.mtree''
       = filepath_Join (demo_env 0 demo_manifest []) ''bundle'' (''sha256_'' @ ''aa'' @ ''.mtree'')
   \<and> Call_os_Open ''bundle/sha512:cc.mtree'' (Inr (File 0))
       \<in> set (fst (snd (repack (demo_env 5 demo_sha512 []) demo_ctx demo_store)))
   \<and> (\<forall>before after. Digest (From demo_sha512) \<noteq> before @ ''sha256:'' @ after)
   \<and> ''bundle/sha512:cc.mtree''
       = filepath_Join (demo_env 5 demo_sha512 []) ''bundle'' (Digest (From demo_sha512) @ ''.mtree'')"
proof -
  have dir: "type_assert_string (Metadata demo_ctx ''bundle'') = Some ''bundle''"
    by (simp add: type_assert_string_def demo_ctx_def)
  have digest: "Digest (From demo_manifest) = ''sha256:'' @ ''aa''"
    by (simp add: demo_manifest_def demo_meta_def)
  have absent: "\<forall>before after. Digest (From demo_sha512) \<noteq> before @ ''sha256:'' @ after"
    by (auto simp: demo_sha512_def demo_meta_def Cons_eq_append_conv)

  define tr where "tr = fst (snd (repack (demo_env 0 demo_manifest []) demo_ctx demo_store))"
  have run: "repack (demo_env 0 demo_manifest []) demo_ctx demo_store
      = (Returns None, tr, snd (snd (repack (demo_env 0 demo_manifest []) demo_ctx demo_store)))"
    by (simp add: tr_def demo_succeeds)
  have opened: "Call_os_Open ''bundle/sha256_aa.mtree'' (Inr (File 0)) \<in> set tr"
    by (simp add: tr_def demo_succeeds)
  from snapshot_path [OF run opened] obtain bundlePath meta where
    b: "type_assert_string (Metadata demo_ctx ''bundle'') = Some bundlePath" and
    m: "hd tr = Call_ReadBundleMeta bundlePath (Inr meta)" and
    p: "\<forall>hex. Digest (From meta) = ''sha256:'' @ hex \<longrightarrow>
          ''bundle/sha256_aa.mtree''
            = filepath_Join (demo_env 0 demo_manifest []) bundlePath (''sha256_'' @ hex @ ''.mtree'')"
    by blast
  from b dir have "bundlePath = ''bundle''"
    by simp
  moreover from m have "meta = demo_manifest"
    by (simp add: tr_def demo_succeeds)
  ultimately have sha256: "''bundle/sha256_aa.mtree''
       = filepath_Join (demo_env 0 demo_manifest []) ''bundle'' (''sha256_'' @ ''aa'' @ ''.mtree'')"
    using p digest by blast

  define tr' where "tr' = fst (snd (repack (demo_env 5 demo_sha512 []) demo_ctx demo_store))"
  have run': "repack (demo_env 5 demo_sha512 []) demo_ctx demo_store
      = (Returns (Some (Wrap demo_error ''parse mtree'')), tr',
         snd (snd (repack (demo_env 5 demo_sha512 []) demo_ctx demo_store)))"
    by (simp add: tr'_def demo_sha512_ParseSpec_fails)
  have opened': "Call_os_Open ''bundle/sha512:cc.mtree'' (Inr (File 0)) \<in> set tr'"
    by (simp add: tr'_def demo_sha512_ParseSpec_fails)
  from snapshot_path [OF run' opened'] obtain bundlePath' meta' where
    b': "type_assert_string (Metadata demo_ctx ''bundle'') = Some bundlePath'" and
    m': "hd tr' = Call_ReadBundleMeta bundlePath' (Inr meta')" and
    p': "(\<forall>before after. Digest (From meta') \<noteq> before @ ''sha256:'' @ after) \<longrightarrow>
          ''bundle/sha512:cc.mtree''
            = filepath_Join (demo_env 5 demo_sha512 []) bundlePath' (Digest (From meta') @ ''.mtree'')"
    by blast
  from b' dir have "bundlePath' = ''bundle''"
    by simp
  moreover from m' have "meta' = demo_sha512"
    by (simp add: tr'_def demo_sha512_ParseSpec_fails)
  ultimately have sha512: "''bundle/sha512:cc.mtree''
       = filepath_Join (demo_env 5 demo_sha512 []) ''bundle'' (Digest (From demo_sha512) @ ''.mtree'')"
    using p' absent by blast

  from opened digest sha256 opened' absent sha512 show ?thesis
    unfolding tr_def tr'_def by blast
qed

subsection \<open>C6: the rootless flag alone selects the filesystem evaluator\<close>

text \<open>
  Claim C6. Whenever repack calls \<^verbatim>\<open>mtree.Check\<close>, the evaluator it passes is
  \<^verbatim>\<open>RootlessFsEval\<close> if the \<^verbatim>\<open>Rootless\<close> flag of the map options in the bundle metadata is
  set and \<^verbatim>\<open>DefaultFsEval\<close> if it is not, and the keywords it passes are \<^verbatim>\<open>MtreeKeywords\<close>
  in both cases.
\<close>

theorem fsEval_selected_by_rootless:
  assumes run: "repack env ctx w = (out, tr, w1)"
    and check: "Call_mtree_Check root spec keywords fsEval r \<in> set tr"
  shows "\<exists>bundlePath meta.
           hd tr = Call_ReadBundleMeta bundlePath (Inr meta)
           \<and> fsEval = (if Rootless (MapOptions meta) then RootlessFsEval else DefaultFsEval)
           \<and> keywords = MtreeKeywords env"
proof -
  from repack_runs [OF run] have "repack_shape env ctx out tr"
    by simp
  then have "\<exists>bundlePath meta.
           hd tr = Call_ReadBundleMeta bundlePath (Inr meta)
           \<and> (\<forall>root spec keywords fsEval r.
                 Call_mtree_Check root spec keywords fsEval r \<in> set tr \<longrightarrow>
                 (Rootless (MapOptions meta) \<longrightarrow> fsEval = RootlessFsEval)
                 \<and> (\<not> Rootless (MapOptions meta) \<longrightarrow> fsEval = DefaultFsEval)
                 \<and> keywords = MtreeKeywords env)"
    using check by (auto elim!: shape_cases)
  with check show ?thesis
    by (metis (full_types))
qed

theorem fsEval_selected_by_rootless_witness:
  "Rootless (MapOptions demo_rootless)
   \<and> Call_mtree_Check ''bundle/rootfs'' (DirectoryHierarchy 0)
         [''size'', ''type'', ''uid'', ''gid'', ''mode''] RootlessFsEval (Inl demo_error)
       \<in> set (fst (snd (repack (demo_env 6 demo_rootless []) demo_ctx demo_store)))
   \<and> (\<exists>bundlePath meta.
         hd (fst (snd (repack (demo_env 6 demo_rootless []) demo_ctx demo_store)))
           = Call_ReadBundleMeta bundlePath (Inr meta)
         \<and> RootlessFsEval = (if Rootless (MapOptions meta) then RootlessFsEval else DefaultFsEval)
         \<and> [''size'', ''type'', ''uid'', ''gid'', ''mode'']
             = MtreeKeywords (demo_env 6 demo_rootless []))"
proof -
  have flag: "Rootless (MapOptions demo_rootless)"
    by (simp add: demo_rootless_def demo_meta_def)
  have check: "Call_mtree_Check ''bundle/rootfs'' (DirectoryHierarchy 0)
         [''size'', ''type'', ''uid'', ''gid'', ''mode''] RootlessFsEval (Inl demo_error)
       \<in> set (fst (snd (repack (demo_env 6 demo_rootless []) demo_ctx demo_store)))"
    by (simp add: demo_rootless_Check_fails)
  from fsEval_selected_by_rootless [OF demo_rootless_Check_fails] check flag
  show ?thesis
    by (simp add: demo_rootless_Check_fails)
qed

subsection \<open>C7: the history record passed to Add\<close>

text \<open>
  What the four overrides of lines 175 to 186 leave behind when none of them panics: a
  field whose key is absent keeps its value, a field whose key is present holds the
  string stored under the key, and the empty-layer flag is not touched.
\<close>

lemma override_Some:
  assumes "override ctx key store h0 = Some h"
  shows "(case Metadata ctx key of None \<Rightarrow> h = h0 | Some v \<Rightarrow> \<exists>s. v = StringVal s \<and> h = store s h0)"
  using assms
  by (auto simp: override_def type_assert_string_def split: option.splits interface.splits)

lemma history_overrides_Some:
  assumes "history_overrides ctx h0 = Some h"
  shows "(case Metadata ctx ''--history.author'' of
            None \<Rightarrow> History.Author h = History.Author h0
          | Some v \<Rightarrow> v = StringVal (History.Author h))
         \<and> (case Metadata ctx ''--history.comment'' of
               None \<Rightarrow> Comment h = Comment h0
             | Some v \<Rightarrow> v = StringVal (Comment h))
         \<and> (case Metadata ctx ''--history.created'' of
               None \<Rightarrow> Created h = Created h0
             | Some v \<Rightarrow> v = StringVal (Created h))
         \<and> (case Metadata ctx ''--history.created_by'' of
               None \<Rightarrow> CreatedBy h = CreatedBy h0
             | Some v \<Rightarrow> v = StringVal (CreatedBy h))
         \<and> EmptyLayer h = EmptyLayer h0"
proof -
  from assms obtain h1 h2 h3 where
    a: "override ctx ''--history.author'' (\<lambda>v h. h\<lparr>History.Author := v\<rparr>) h0 = Some h1" and
    b: "override ctx ''--history.comment'' (\<lambda>v h. h\<lparr>Comment := v\<rparr>) h1 = Some h2" and
    c: "override ctx ''--history.created'' (\<lambda>v h. h\<lparr>Created := v\<rparr>) h2 = Some h3" and
    d: "override ctx ''--history.created_by'' (\<lambda>v h. h\<lparr>CreatedBy := v\<rparr>) h3 = Some h"
    by (auto simp: history_overrides_def split: option.splits)
  from override_Some [OF a] override_Some [OF b] override_Some [OF c] override_Some [OF d]
  show ?thesis
    by (auto split: option.splits)
qed

text \<open>
  Claim C7. Whenever repack calls \<^verbatim>\<open>Mutator.Add\<close>, each of the four fields author,
  comment, created and created-by of the history record it passes is the string stored
  under its override key if the key is present in \<^verbatim>\<open>ctx.App.Metadata\<close>, and otherwise its
  default: the author of the image metadata that \<^verbatim>\<open>mutator.Meta\<close> returned, the empty
  string, the clock reading in ISO-8601 format, and \<^verbatim>\<open>umoci config\<close>. The empty-layer flag
  is false.
\<close>

theorem history_record_passed_to_Add:
  assumes run: "repack env ctx w = (out, tr, w1)"
    and add: "Call_mutator_Add mutator reader history r \<in> set tr"
  shows "\<exists>imageMeta now.
           Call_mutator_Meta mutator (Inr imageMeta) \<in> set tr
           \<and> Call_time_Now now \<in> set tr
           \<and> (case Metadata ctx ''--history.author'' of
                 None \<Rightarrow> History.Author history = Meta.Author imageMeta
               | Some v \<Rightarrow> v = StringVal (History.Author history))
           \<and> (case Metadata ctx ''--history.comment'' of
                 None \<Rightarrow> Comment history = ''''
               | Some v \<Rightarrow> v = StringVal (Comment history))
           \<and> (case Metadata ctx ''--history.created'' of
                 None \<Rightarrow> Created history = time_Format_ISO8601 env now
               | Some v \<Rightarrow> v = StringVal (Created history))
           \<and> (case Metadata ctx ''--history.created_by'' of
                 None \<Rightarrow> CreatedBy history = ''umoci config''
               | Some v \<Rightarrow> v = StringVal (CreatedBy history))
           \<and> EmptyLayer history = False"
proof -
  from repack_runs [OF run] have "repack_shape env ctx out tr"
    by simp
  with add obtain imageMeta now where
    meta: "Call_mutator_Meta mutator (Inr imageMeta) \<in> set tr" and
    now: "Call_time_Now now \<in> set tr" and
    h: "history_overrides ctx (history_literal env imageMeta now) = Some history"
    by (auto elim!: shape_cases)
  have literal: "History.Author (history_literal env imageMeta now) = Meta.Author imageMeta"
    "Comment (history_literal env imageMeta now) = []"
    "Created (history_literal env imageMeta now) = time_Format_ISO8601 env now"
    "CreatedBy (history_literal env imageMeta now) = ''umoci config''"
    "EmptyLayer (history_literal env imageMeta now) = False"
    by (simp_all add: history_literal_def)
  from history_overrides_Some [OF h] show ?thesis
    unfolding literal
    by (intro exI [of _ imageMeta] exI [of _ now] conjI meta now) simp_all
qed

theorem history_record_passed_to_Add_witness:
  "Call_mutator_Add (Mutator 0) (Reader 0) demo_history None
     \<in> set (fst (snd (repack (demo_env 0 demo_manifest []) demo_ctx demo_store)))
   \<and> Metadata demo_ctx ''--history.author'' = Some (StringVal (History.Author demo_history))
   \<and> Metadata demo_ctx ''--history.comment'' = None
   \<and> Comment demo_history = ''''
   \<and> Metadata demo_ctx ''--history.created'' = None
   \<and> Created demo_history = ''2017-03-01T12:00:00Z''
   \<and> Metadata demo_ctx ''--history.created_by'' = None
   \<and> CreatedBy demo_history = ''umoci config''
   \<and> EmptyLayer demo_history = False"
proof -
  have add: "Call_mutator_Add (Mutator 0) (Reader 0) demo_history None
     \<in> set (fst (snd (repack (demo_env 0 demo_manifest []) demo_ctx demo_store)))"
    by (simp add: demo_succeeds)
  have keys: "Metadata demo_ctx ''--history.comment'' = None"
    "Metadata demo_ctx ''--history.created'' = None"
    "Metadata demo_ctx ''--history.created_by'' = None"
    "\<exists>v. Metadata demo_ctx ''--history.author'' = Some v"
    by (simp_all add: demo_ctx_def)
  have clock: "time_Format_ISO8601 (demo_env 0 demo_manifest []) (Time 0) = ''2017-03-01T12:00:00Z''"
    by (simp add: demo_env_def)
  from history_record_passed_to_Add [OF demo_succeeds] add keys clock
  show ?thesis
    by (auto simp: demo_succeeds)
qed

subsection \<open>C8: the errors of the reference swap are returned as they are\<close>

text \<open>
  Claim C8 fails on the code at the reference swap. Every return for a failed call up to
  \<^verbatim>\<open>Mutator.Commit\<close> wraps the error (the theorem of C1 gives \<^verbatim>\<open>Wrap err msg\<close>), but lines
  209 and 212 return the error of \<^verbatim>\<open>DeleteReference\<close> and of \<^verbatim>\<open>PutReference\<close> bare. Here
  the store fails with \<^verbatim>\<open>input/output error\<close> in the one call and in the other, and repack
  returns that very error, with no stage context around it.
\<close>

theorem reference_swap_error_not_wrapped:
  "fst (repack (demo_env 11 demo_manifest []) demo_ctx demo_store)
     = Returns (Some (Error ''input/output error''))
   \<and> fst (repack (demo_env 12 demo_manifest []) demo_ctx demo_store)
     = Returns (Some (Error ''input/output error''))"
  by (simp add: demo_Delete_fails demo_Put_fails demo_error_def)

subsection \<open>C9: an empty diff is no special case\<close>

lemma replay_one_Add:
  assumes contract: "Add_contract env layers"
    and log: "replay env tr w = Some w1"
    and once: "filter is_Add tr = [Call_mutator_Add mutator reader history None]"
  shows "layers w1 = layers w @ [(reader, history)]"
  using log once
proof (induction tr arbitrary: w)
  case Nil
  then show ?case by simp
next
  case (Cons e es)
  from Cons.prems(1) obtain w0 where
    e: "step env e w = Some w0" and es: "replay env es w0 = Some w1"
    by (rule replay_Cons_Some)
  show ?case
  proof (cases "is_Add e")
    case True
    with Cons.prems(2) have this_one: "e = Call_mutator_Add mutator reader history None"
      and no_more: "filter is_Add es = []"
      by simp_all
    from e this_one have "mutator_Add env mutator reader history w = (None, w0)"
      by (simp add: answered_Some)
    with contract have "layers w0 = layers w @ [(reader, history)]"
      unfolding Add_contract_def by blast
    moreover from no_more contract have "\<forall>e\<in>set es. leaves env layers e"
      unfolding Add_contract_def by (simp add: filter_empty_conv)
    from replay_leaves [OF es this] have "layers w1 = layers w0" .
    ultimately show ?thesis by simp
  next
    case False
    with contract e have "layers w0 = layers w"
      unfolding Add_contract_def leaves_def by blast
    moreover from False Cons.prems(2) have "filter is_Add es = [Call_mutator_Add mutator reader history None]"
      by simp
    from Cons.IH [OF es this] have "layers w1 = layers w0 @ [(reader, history)]" .
    ultimately show ?thesis by simp
  qed
qed

text \<open>
  Claim C9. Repack has no branch on the diff. Whatever list \<^verbatim>\<open>mtree.Check\<close> returns, the
  empty list included, \<^verbatim>\<open>GenerateLayer\<close> is called exactly once, on that list; once the
  layer is generated and the image metadata read, \<^verbatim>\<open>Mutator.Add\<close> is called exactly once, on
  that layer, unless an override panics; once \<^verbatim>\<open>Add\<close> has succeeded, \<^verbatim>\<open>Mutator.Commit\<close> is
  called exactly once. So when repack returns nil, each of the three was called once and
  succeeded, and on a mutator that keeps the contract of \<^verbatim>\<open>Add\<close> the image has gained
  exactly one layer with its history record.
\<close>

theorem empty_diff_still_appends:
  assumes run: "repack env ctx w = (out, tr, w1)"
  shows "(\<forall>root spec keywords fsEval diffs.
            Call_mtree_Check root spec keywords fsEval (Inr diffs) \<in> set tr \<longrightarrow>
            (\<exists>mapOptions r.
               filter is_GenerateLayer tr = [Call_layer_GenerateLayer root diffs mapOptions r]))
         \<and> (\<forall>root diffs mapOptions reader mutator imageMeta.
              Call_layer_GenerateLayer root diffs mapOptions (Inr reader) \<in> set tr \<longrightarrow>
              Call_mutator_Meta mutator (Inr imageMeta) \<in> set tr \<longrightarrow>
              out \<noteq> Panics \<longrightarrow>
              (\<exists>history r. filter is_Add tr = [Call_mutator_Add mutator reader history r]))
         \<and> (\<forall>mutator reader history.
              Call_mutator_Add mutator reader history None \<in> set tr \<longrightarrow>
              (\<exists>r. filter is_Commit tr = [Call_mutator_Commit mutator r]))
         \<and> (out = Returns None \<longrightarrow>
              (\<exists>root diffs mapOptions mutator reader history newDescriptor.
                 filter is_GenerateLayer tr
                   = [Call_layer_GenerateLayer root diffs mapOptions (Inr reader)]
                 \<and> filter is_Add tr = [Call_mutator_Add mutator reader history None]
                 \<and> filter is_Commit tr = [Call_mutator_Commit mutator (Inr newDescriptor)]
                 \<and> (Add_contract env layers \<longrightarrow> layers w1 = layers w @ [(reader, history)])))"
proof -
  from repack_runs [OF run] have shape: "repack_shape env ctx out tr"
    and log: "replay env tr w = Some w1"
    by simp_all
  have generate: "\<exists>mapOptions r.
      filter is_GenerateLayer tr = [Call_layer_GenerateLayer root diffs mapOptions r]"
    if "Call_mtree_Check root spec kws fsEval (Inr diffs) \<in> set tr"
    for root spec kws fsEval diffs
    using shape that by (elim shape_cases; simp; blast?)
  have add: "\<exists>history r. filter is_Add tr = [Call_mutator_Add mutator reader history r]"
    if "Call_layer_GenerateLayer root diffs mapOptions (Inr reader) \<in> set tr"
      and "Call_mutator_Meta mutator (Inr imageMeta) \<in> set tr"
      and "out \<noteq> Panics"
    for root diffs mapOptions reader mutator imageMeta
    using shape that by (elim shape_cases; simp; blast?)
  have commit: "\<exists>r. filter is_Commit tr = [Call_mutator_Commit mutator r]"
    if "Call_mutator_Add mutator reader history None \<in> set tr"
    for mutator reader history
    using shape that by (elim shape_cases; simp; blast?)
  have success: "\<exists>root diffs mapOptions mutator reader history newDescriptor.
                 filter is_GenerateLayer tr
                   = [Call_layer_GenerateLayer root diffs mapOptions (Inr reader)]
                 \<and> filter is_Add tr = [Call_mutator_Add mutator reader history None]
                 \<and> filter is_Commit tr = [Call_mutator_Commit mutator (Inr newDescriptor)]
                 \<and> (Add_contract env layers \<longrightarrow> layers w1 = layers w @ [(reader, history)])"
    if "out = Returns None"
  proof -
    from shape that obtain root diffs mapOptions mutator reader history newDescriptor where
      g: "filter is_GenerateLayer tr = [Call_layer_GenerateLayer root diffs mapOptions (Inr reader)]"
      and a: "filter is_Add tr = [Call_mutator_Add mutator reader history None]"
      and c: "filter is_Commit tr = [Call_mutator_Commit mutator (Inr newDescriptor)]"
      by (elim shape_cases; simp)
    have "layers w1 = layers w @ [(reader, history)]" if "Add_contract env layers"
      using replay_one_Add [OF that log a] .
    with g a c show ?thesis
      by blast
  qed
  from generate add commit success show ?thesis
    by blast
qed

theorem empty_diff_still_appends_witness:
  "Call_mtree_Check ''bundle/rootfs'' (DirectoryHierarchy 0)
     [''size'', ''type'', ''uid'', ''gid'', ''mode''] DefaultFsEval (Inr [])
     \<in> set (fst (snd (repack (demo_env 0 demo_manifest []) demo_ctx demo_store)))
   \<and> fst (repack (demo_env 0 demo_manifest []) demo_ctx demo_store) = Returns None
   \<and> Add_contract (demo_env 0 demo_manifest []) appended
   \<and> (\<exists>mapOptions r.
         filter is_GenerateLayer (fst (snd (repack (demo_env 0 demo_manifest []) demo_ctx demo_store)))
           = [Call_layer_GenerateLayer ''bundle/rootfs'' [] mapOptions r])
   \<and> (\<exists>history r.
         filter is_Add (fst (snd (repack (demo_env 0 demo_manifest []) demo_ctx demo_store)))
           = [Call_mutator_Add (Mutator 0) (Reader 0) history r])
   \<and> (\<exists>r. filter is_Commit (fst (snd (repack (demo_env 0 demo_manifest []) demo_ctx demo_store)))
           = [Call_mutator_Commit (Mutator 0) r])
   \<and> appended (snd (snd (repack (demo_env 0 demo_manifest []) demo_ctx demo_store)))
       = appended demo_store @ [(Reader 0, demo_history)]"
proof -
  let ?env = "demo_env 0 demo_manifest []"
  define tr where "tr = fst (snd (repack ?env demo_ctx demo_store))"
  define w1 where "w1 = snd (snd (repack ?env demo_ctx demo_store))"
  have run: "repack ?env demo_ctx demo_store = (Returns None, tr, w1)"
    by (simp add: tr_def w1_def demo_succeeds)
  have check: "Call_mtree_Check ''bundle/rootfs'' (DirectoryHierarchy 0)
     [''size'', ''type'', ''uid'', ''gid'', ''mode''] DefaultFsEval (Inr []) \<in> set tr"
    and generated: "Call_layer_GenerateLayer ''bundle/rootfs'' [] (MapOptions demo_manifest)
       (Inr (Reader 0)) \<in> set tr"
    and meta: "Call_mutator_Meta (Mutator 0) (Inr \<lparr>Meta.Author = ''base''\<rparr>) \<in> set tr"
    and added: "Call_mutator_Add (Mutator 0) (Reader 0) demo_history None \<in> set tr"
    by (simp_all add: tr_def demo_succeeds)
  have others: "leaves ?env appended e" if "\<not> is_Add e" for e
    using that by (cases e) (auto simp: leaves_def answered_Some demo_env_def split: if_splits)
  have contract: "Add_contract ?env appended"
    unfolding Add_contract_def
  proof (intro conjI allI impI)
    fix mutator reader history w w1
    assume "mutator_Add ?env mutator reader history w = (None, w1)"
    then show "appended w1 = appended w @ [(reader, history)]"
      by (auto simp: demo_env_def)
  next
    fix e :: event
    assume "\<not> is_Add e"
    then show "leaves ?env appended e"
      by (rule others)
  qed
  note claim = empty_diff_still_appends [OF run, of appended]
  from claim check
  have one: "\<exists>mapOptions r. filter is_GenerateLayer tr
               = [Call_layer_GenerateLayer ''bundle/rootfs'' [] mapOptions r]"
    by blast
  from claim generated meta
  have two: "\<exists>history r. filter is_Add tr = [Call_mutator_Add (Mutator 0) (Reader 0) history r]"
    by blast
  from claim added
  have three: "\<exists>r. filter is_Commit tr = [Call_mutator_Commit (Mutator 0) r]"
    by blast
  from claim contract added
  have four: "appended w1 = appended demo_store @ [(Reader 0, demo_history)]"
    by (auto dest!: filter_eq_ConsD simp: tr_def demo_succeeds)
  from check contract one two three four show ?thesis
    unfolding tr_def w1_def by (simp add: demo_succeeds)
qed

subsection \<open>C10: every resource that was opened is closed\<close>

text \<open>
  Claim C10. On every path through repack, whether it returns nil, returns an error or
  panics, the deferred calls close exactly the resources that were opened (the engine once
  \<^verbatim>\<open>cas.Open\<close> succeeded, the snapshot file once \<^verbatim>\<open>os.Open\<close> succeeded, the layer reader once
  \<^verbatim>\<open>GenerateLayer\<close> succeeded), each once, the last opened first, and nothing is called
  after the first of them but the others.
\<close>

theorem resources_released:
  assumes run: "repack env ctx w = (out, tr, w1)"
  shows "List.map_filter closed tr = rev (List.map_filter opened tr)
         \<and> list_all is_Close (dropWhile (\<lambda>e. \<not> is_Close e) tr)"
  using repack_runs [OF run]
  by (auto elim!: shape_cases simp: List.map_filter_def)

theorem resources_released_witness:
  "fst (repack (demo_env 0 demo_manifest [(Extra, ''etc/motd'')]) demo_ctx_not_string demo_store)
     = Panics
   \<and> List.map_filter closed
        (fst (snd (repack (demo_env 0 demo_manifest [(Extra, ''etc/motd'')])
                     demo_ctx_not_string demo_store)))
     = [The_reader (Reader 0), The_file (File 0), The_engine (Engine 0)]
   \<and> List.map_filter opened
        (fst (snd (repack (demo_env 0 demo_manifest [(Extra, ''etc/motd'')])
                     demo_ctx_not_string demo_store)))
     = [The_engine (Engine 0), The_file (File 0), The_reader (Reader 0)]
   \<and> list_all is_Close
        (dropWhile (\<lambda>e. \<not> is_Close e)
           (fst (snd (repack (demo_env 0 demo_manifest [(Extra, ''etc/motd'')])
                        demo_ctx_not_string demo_store))))"
proof -
  have "List.map_filter opened
        (fst (snd (repack (demo_env 0 demo_manifest [(Extra, ''etc/motd'')])
                     demo_ctx_not_string demo_store)))
     = [The_engine (Engine 0), The_file (File 0), The_reader (Reader 0)]"
    by (simp add: demo_override_panics List.map_filter_def)
  with resources_released [OF demo_override_panics] show ?thesis
    by (simp add: demo_override_panics)
qed

end
